theory Spec2Isabelle
  imports Complex_Main
begin

section \<open>Python values used by \<open>src/main.py\<close>\<close>

text \<open>
  Exceptions are values. \<open>ValueError\<close> stands for the class and its subclasses (the only
  ones the handler of \<open>main\<close> catches); the other constructors are classes outside that
  hierarchy.
\<close>

datatype pyexn =
    ValueError string
  | KeyError string
  | FileNotFoundError string
  | IndexError string
  | OtherError string

text \<open>
  A Python float: a finite double is represented by the rational number it denotes (every
  finite double is one), next to the negative zero, the two infinities and NaN.
\<close>

datatype pyfloat = Finite rat | NegZero | PosInf | NegInf | NaN

datatype pynum = PyInt int | PyFloat pyfloat

datatype cell = NumCell pynum | StrCell string

text \<open>A pandas DataFrame: the column labels and the rows of cells.\<close>

record dataframe =
  columns :: "string list"
  rows :: "cell list list"

type_synonym files = "string \<rightharpoonup> string"

section \<open>Observable effects\<close>

datatype html = HideTableRowIndex | ContactForm

datatype event =
    Call_MolFromSmiles string
  | Call_Descriptors
  | Write_file string string
  | Call_subprocess "string list"
  | Call_read_csv string
  | Call_pickle_load string
  | Call_predict dataframe
  | Call_search string
  | St_text string
  | St_table dataframe
  | St_markdown string
  | St_html html
  | St_error string
  | St_write string
  | St_header string
  | St_columns nat
  | St_empty

section \<open>The external collaborators\<close>

text \<open>
  RDKit, pickle and the pickled predictors, the shell script run by \<open>subprocess.call\<close>,
  the pandas CSV reader and the pypdb search are not part of the repository: they are
  parameters of the model. The script returns its exit code and the file system it
  leaves behind. The last field is the truth value numpy gives an empty array, which
  depends on its version: \<open>False\<close> before 2.2, a \<open>ValueError\<close> from then on.
\<close>

record ('mol, 'model) env =
  MolFromSmiles :: "string \<Rightarrow> 'mol option"
  MolWt :: "'mol \<Rightarrow> pyfloat"
  MolLogP :: "'mol \<Rightarrow> pyfloat"
  NumHDonors :: "'mol \<Rightarrow> int"
  NumHAcceptors :: "'mol \<Rightarrow> int"
  pickle_load :: "string \<Rightarrow> pyexn + 'model"
  predict :: "'model \<Rightarrow> dataframe \<Rightarrow> pyexn + pynum list"
  subprocess_call :: "string list \<Rightarrow> files \<Rightarrow> int \<times> files"
  read_csv_text :: "string \<Rightarrow> pyexn + dataframe"
  pdb_search :: "string \<Rightarrow> pyexn + string list"
  numpy_empty_truth :: "pyexn + bool"

text \<open>
  The state that outlives a call of \<open>main\<close>: the files of the working directory and the
  store of \<open>@st.cache_data\<close> (argument string to returned frame, most recent first).
\<close>

record world =
  files :: files
  cache :: "(string \<times> dataframe) list"

section \<open>\<open>calculate_lipinski_descriptors\<close> (lines 11 to 33)\<close>

definition calculate_lipinski_descriptors ::
  "('mol, 'model) env \<Rightarrow> string \<Rightarrow> (pyexn + dataframe) \<times> event list" where
  "calculate_lipinski_descriptors env smiles =
     (case MolFromSmiles env smiles of
        None \<Rightarrow> (Inl (ValueError ''Invalid SMILES string''), [Call_MolFromSmiles smiles])
      | Some mol \<Rightarrow>
          (Inr \<lparr>columns = [''MW'', ''LogP'', ''NumHDonors'', ''NumHAcceptors''],
                rows = [[NumCell (PyFloat (MolWt env mol)),
                         NumCell (PyFloat (MolLogP env mol)),
                         NumCell (PyInt (NumHDonors env mol)),
                         NumCell (PyInt (NumHAcceptors env mol))]]\<rparr>,
           [Call_MolFromSmiles smiles, Call_Descriptors]))"

text \<open>
  The decorator \<open>@st.cache_data\<close>: a call whose argument is in the store returns the stored
  frame without running the body; otherwise the body runs and a returned frame is stored.
  A call that raises stores nothing.
\<close>

definition cached_lipinski ::
  "('mol, 'model) env \<Rightarrow> (string \<times> dataframe) list \<Rightarrow> string \<Rightarrow>
     (pyexn + dataframe) \<times> event list \<times> (string \<times> dataframe) list" where
  "cached_lipinski env c smiles =
     (case map_of c smiles of
        Some df \<Rightarrow> (Inr df, [], c)
      | None \<Rightarrow>
          (case calculate_lipinski_descriptors env smiles of
             (Inl e, evs) \<Rightarrow> (Inl e, evs, c)
           | (Inr df, evs) \<Rightarrow> (Inr df, evs, (smiles, df) # c)))"

section \<open>\<open>generate_csv_file\<close> (lines 36 to 49)\<close>

fun str_join :: "string \<Rightarrow> string list \<Rightarrow> string" where
  "str_join sep [] = []"
| "str_join sep [x] = x"
| "str_join sep (x # y # ys) = x @ sep @ str_join sep (y # ys)"

text \<open>
  \<open>csv.writer(file)\<close> with the default dialect: fields joined by commas, the line ended by
  CR LF, a field quoted when it holds a comma, a double quote, CR or LF, with every double
  quote doubled (minimal quoting); a row of one empty field is written as two quotes.
\<close>

definition csv_special :: "char \<Rightarrow> bool" where
  "csv_special c \<longleftrightarrow> c = CHR 0x2C \<or> c = CHR 0x22 \<or> c = CHR 0x0D \<or> c = CHR 0x0A"

definition csv_field :: "string \<Rightarrow> string" where
  "csv_field f =
     (if list_ex csv_special f
      then [CHR 0x22] @ concat (map (\<lambda>c. if c = CHR 0x22 then [c, c] else [c]) f) @ [CHR 0x22]
      else f)"

definition csv_writerow :: "string list \<Rightarrow> string" where
  "csv_writerow row =
     (if row = [[]] then [CHR 0x22, CHR 0x22] else str_join [CHR 0x2C] (map csv_field row))
       @ [CHR 0x0D, CHR 0x0A]"

definition csv_writerows :: "string list list \<Rightarrow> string" where
  "csv_writerows data = concat (map csv_writerow data)"

definition generate_csv_text :: "string \<Rightarrow> string \<Rightarrow> string" where
  "generate_csv_text string1 string2 = csv_writerows [[string1 @ [CHR 0x09] @ string2]]"

definition generate_csv_file :: "string \<Rightarrow> string \<Rightarrow> string \<Rightarrow> files \<Rightarrow> files" where
  "generate_csv_file string1 string2 filename fs =
     fs(filename \<mapsto> generate_csv_text string1 string2)"

section \<open>Built-ins and library calls of \<open>main\<close>\<close>

text \<open>\<open>format(x, ".2f")\<close>: the nearest hundredth of the exact value, ties to even.\<close>

definition digit_char :: "nat \<Rightarrow> char" where
  "digit_char d = ''0123456789'' ! (d mod 10)"

fun decimal :: "nat \<Rightarrow> string" where
  "decimal n = (if n < 10 then [digit_char n] else decimal (n div 10) @ [digit_char (n mod 10)])"

declare decimal.simps [simp del]

definition round_half_even :: "rat \<Rightarrow> int" where
  "round_half_even q =
     (let f = \<lfloor>q\<rfloor>; r = q - of_int f
      in if r < 1 / 2 then f else if 1 / 2 < r then f + 1 else if even f then f else f + 1)"

definition fixed2 :: "nat \<Rightarrow> string" where
  "fixed2 n = decimal (n div 100) @ ''.'' @ [digit_char (n div 10 mod 10), digit_char (n mod 10)]"

fun format_2f :: "pyfloat \<Rightarrow> string" where
  "format_2f (Finite q) =
     (if q < 0 then ''-'' else []) @ fixed2 (nat (round_half_even (\<bar>q\<bar> * 100)))"
| "format_2f NegZero = ''-0.00''"
| "format_2f PosInf = ''inf''"
| "format_2f NegInf = ''-inf''"
| "format_2f NaN = ''nan''"

text \<open>
  An integer is converted to a double before it is formatted: it keeps its 53 leading
  bits, the rest rounded to nearest with ties to even, and the conversion raises
  \<open>OverflowError\<close> when the rounded value does not fit a double. (The subtraction is on
  natural numbers: an integer of at most 53 bits is exact.)
\<close>

function bit_length :: "int \<Rightarrow> nat" where
  "bit_length a = (if a \<le> 0 then 0 else Suc (bit_length (a div 2)))"
  by pat_completeness auto

termination
  by (relation "measure nat") auto

declare bit_length.simps [simp del]

definition float_of_int :: "int \<Rightarrow> pyexn + pyfloat" where
  "float_of_int n =
     (let a = \<bar>n\<bar>;
          e = bit_length a - 53;
          v = round_half_even (of_int a / 2 ^ e) * 2 ^ e
      in if 2 ^ 1024 \<le> v
         then Inl (OtherError ''OverflowError: int too large to convert to float'')
         else Inr (Finite (of_int (if n < 0 then - v else v))))"

fun format_2f_num :: "pynum \<Rightarrow> pyexn + string" where
  "format_2f_num (PyInt n) =
     (case float_of_int n of Inl e \<Rightarrow> Inl e | Inr x \<Rightarrow> Inr (format_2f x))"
| "format_2f_num (PyFloat x) = Inr (format_2f x)"

text \<open>\<open>x == 1\<close> on a number.\<close>

fun num_eq_1 :: "pynum \<Rightarrow> bool" where
  "num_eq_1 (PyInt n) = (n = 1)"
| "num_eq_1 (PyFloat x) = (x = Finite 1)"

text \<open>
  \<open>if y_pred == [1]\<close> on a numpy array: the comparison is elementwise, and the truth value
  of the resulting array is that of its only element; numpy raises \<open>ValueError\<close> for an
  array of several elements, and the truth value of an empty array is the one its version
  gives (the first argument). A predictor applied to the single-row frame of the
  descriptors answers with one element.
\<close>

fun array_eq_1_truth :: "pyexn + bool \<Rightarrow> pynum list \<Rightarrow> pyexn + bool" where
  "array_eq_1_truth empty_truth [v] = Inr (num_eq_1 v)"
| "array_eq_1_truth empty_truth [] = empty_truth"
| "array_eq_1_truth empty_truth vs =
     Inl (ValueError
       (''The truth value of an array with more than one element is ambiguous. ''
          @ ''Use a.any() or a.all()''))"

text \<open>\<open>y_pred[0]\<close>.\<close>

fun first_item :: "pynum list \<Rightarrow> pyexn + pynum" where
  "first_item [] = Inl (IndexError ''index 0 is out of bounds for axis 0 with size 0'')"
| "first_item (v # vs) = Inr v"

text \<open>\<open>pickle.load(open(filename, 'rb'))\<close>.\<close>

definition load_model :: "('mol, 'model) env \<Rightarrow> files \<Rightarrow> string \<Rightarrow> pyexn + 'model" where
  "load_model env fs filename =
     (case fs filename of
        None \<Rightarrow> Inl (FileNotFoundError filename)
      | Some bytes \<Rightarrow> pickle_load env bytes)"

text \<open>\<open>pd.read_csv(filename)\<close>.\<close>

definition read_csv :: "('mol, 'model) env \<Rightarrow> files \<Rightarrow> string \<Rightarrow> pyexn + dataframe" where
  "read_csv env fs filename =
     (case fs filename of
        None \<Rightarrow> Inl (FileNotFoundError filename)
      | Some text \<Rightarrow> read_csv_text env text)"

text \<open>\<open>data.drop(columns=[name])\<close>: \<open>KeyError\<close> when no column has the label.\<close>

definition drop_column :: "string \<Rightarrow> dataframe \<Rightarrow> pyexn + dataframe" where
  "drop_column name data =
     (if name \<in> set (columns data)
      then Inr \<lparr>columns = filter (\<lambda>c. c \<noteq> name) (columns data),
                rows = map (\<lambda>r. map snd (filter (\<lambda>p. fst p \<noteq> name) (zip (columns data) r)))
                         (rows data)\<rparr>
      else Inl (KeyError name))"

text \<open>The loop of lines 155 to 158.\<close>

fun collect_ids :: "string list \<Rightarrow> string list \<Rightarrow> string list" where
  "collect_ids ids [] = ids"
| "collect_ids ids (pdb_id # result) =
     collect_ids (if length ids < 10 then ids @ [pdb_id] else ids) result"

section \<open>\<open>main\<close> (lines 87 to 183)\<close>

text \<open>The four entries of the select box, in the order of the \<open>options\<close> list.\<close>

datatype task = Lipinski | Activity | PIC50 | Proteins

type_synonym run = "(pyexn + unit) \<times> event list \<times> world"

text \<open>Lines 111 to 123.\<close>

definition lipinski_branch :: "('mol, 'model) env \<Rightarrow> world \<Rightarrow> string \<Rightarrow> run" where
  "lipinski_branch env w smiles_input =
     (case cached_lipinski env (cache w) smiles_input of
        (Inl e, evs, c) \<Rightarrow> (Inl e, evs, w\<lparr>cache := c\<rparr>)
      | (Inr df, evs, c) \<Rightarrow>
          (Inr (),
           evs @ [St_html HideTableRowIndex,
                  St_table (df\<lparr>columns := [''Molecular Weight'',
                                            ''Octanol-Water Partition Coefficient (LogP)'',
                                            ''Number of Hydrogen Bond Donors'',
                                            ''Number of Hydrogen Bond Acceptors'']\<rparr>)],
           w\<lparr>cache := c\<rparr>))"

text \<open>Lines 124 to 132.\<close>

definition activity_branch :: "('mol, 'model) env \<Rightarrow> world \<Rightarrow> string \<Rightarrow> run" where
  "activity_branch env w smiles_input =
     (case load_model env (files w) ''lipinsky_model.pkl'' of
        Inl e \<Rightarrow> (Inl e, [Call_pickle_load ''lipinsky_model.pkl''], w)
      | Inr loaded_model \<Rightarrow>
          (case cached_lipinski env (cache w) smiles_input of
             (Inl e, evs, c) \<Rightarrow>
               (Inl e, [Call_pickle_load ''lipinsky_model.pkl''] @ evs, w\<lparr>cache := c\<rparr>)
           | (Inr df, evs, c) \<Rightarrow>
               (case predict env loaded_model df of
                  Inl e \<Rightarrow>
                    (Inl e,
                     [Call_pickle_load ''lipinsky_model.pkl''] @ evs @ [Call_predict df],
                     w\<lparr>cache := c\<rparr>)
                | Inr y_pred \<Rightarrow>
                    (case array_eq_1_truth (numpy_empty_truth env) y_pred of
                       Inl e \<Rightarrow>
                         (Inl e,
                          [Call_pickle_load ''lipinsky_model.pkl''] @ evs @ [Call_predict df],
                          w\<lparr>cache := c\<rparr>)
                     | Inr b \<Rightarrow>
                         (Inr (),
                          [Call_pickle_load ''lipinsky_model.pkl''] @ evs @ [Call_predict df]
                            @ [St_text (if b then ''Active'' else ''Inactive'')],
                          w\<lparr>cache := c\<rparr>)))))"

text \<open>Lines 133 to 151. The value returned by \<open>subprocess.call\<close> is not bound to a name.\<close>

definition pic50_branch :: "('mol, 'model) env \<Rightarrow> world \<Rightarrow> string \<Rightarrow> run" where
  "pic50_branch env w smiles_input =
     (let string1 = smiles_input;
          string2 = ''Compound_name'';
          filename = ''molecule.smi'';
          fs1 = generate_csv_file string1 string2 filename (files w);
          fs2 = snd (subprocess_call env [''bash'', ''./padel.sh''] fs1);
          w2 = w\<lparr>files := fs2\<rparr>;
          evs2 = [Write_file filename (generate_csv_text string1 string2),
                  Call_subprocess [''bash'', ''./padel.sh''],
                  Call_read_csv ''descriptors_output.csv'']
      in case read_csv env fs2 ''descriptors_output.csv'' of
           Inl e \<Rightarrow> (Inl e, evs2, w2)
         | Inr data \<Rightarrow>
             (case drop_column ''Name'' data of
                Inl e \<Rightarrow> (Inl e, evs2, w2)
              | Inr X \<Rightarrow>
                  (case load_model env fs2 ''model.pkl'' of
                     Inl e \<Rightarrow> (Inl e, evs2 @ [Call_pickle_load ''model.pkl''], w2)
                   | Inr loaded_model \<Rightarrow>
                       (case predict env loaded_model X of
                          Inl e \<Rightarrow>
                            (Inl e, evs2 @ [Call_pickle_load ''model.pkl'', Call_predict X], w2)
                        | Inr y_pred \<Rightarrow>
                            (case first_item y_pred of
                               Inl e \<Rightarrow>
                                 (Inl e,
                                  evs2 @ [Call_pickle_load ''model.pkl'', Call_predict X], w2)
                             | Inr predicted_value \<Rightarrow>
                                 (case format_2f_num predicted_value of
                                    Inl e \<Rightarrow>
                                      (Inl e,
                                       evs2 @ [Call_pickle_load ''model.pkl'', Call_predict X],
                                       w2)
                                  | Inr formatted \<Rightarrow>
                                      (Inr (),
                                       evs2 @ [Call_pickle_load ''model.pkl'', Call_predict X,
                                               St_text (''The pIC50 of your compound is ''
                                                          @ formatted)],
                                       w2)))))))"

text \<open>Lines 152 to 160.\<close>

definition proteins_branch :: "('mol, 'model) env \<Rightarrow> world \<Rightarrow> string \<Rightarrow> run" where
  "proteins_branch env w smiles_input =
     (case pdb_search env smiles_input of
        Inl e \<Rightarrow> (Inl e, [Call_search smiles_input], w)
      | Inr result \<Rightarrow>
          (Inr (),
           [Call_search smiles_input, St_markdown (str_join '', '' (collect_ids [] result))],
           w))"

text \<open>The body of the \<open>try\<close> statement.\<close>

fun try_body :: "('mol, 'model) env \<Rightarrow> world \<Rightarrow> string \<Rightarrow> task \<Rightarrow> run" where
  "try_body env w smiles_input Lipinski = lipinski_branch env w smiles_input"
| "try_body env w smiles_input Activity = activity_branch env w smiles_input"
| "try_body env w smiles_input PIC50 = pic50_branch env w smiles_input"
| "try_body env w smiles_input Proteins = proteins_branch env w smiles_input"

text \<open>Lines 164 to 183, run whenever control reaches the end of the \<open>if\<close> statement.\<close>

definition contact_section :: "event list" where
  "contact_section =
     [St_write ''---'', St_header ''Please contact us!'', St_columns 2, St_html ContactForm,
      St_empty]"

datatype outcome = Returned | Raised pyexn

text \<open>
  \<open>main\<close>, given the content of the text field, the selected entry and whether the button
  was pressed. \<open>except ValueError as e: st.error(str(e))\<close> is the only handler: any other
  exception leaves \<open>main\<close>.
\<close>

definition main ::
  "('mol, 'model) env \<Rightarrow> world \<Rightarrow> string \<Rightarrow> task \<Rightarrow> bool \<Rightarrow> outcome \<times> event list \<times> world" where
  "main env w smiles_input selected_option run_pressed =
     (if run_pressed then
        (if smiles_input = [] then
           (Returned, [St_text ''Enter Canonical SMILES''] @ contact_section, w)
         else
           (case try_body env w smiles_input selected_option of
              (Inr u, evs, w') \<Rightarrow> (Returned, evs @ contact_section, w')
            | (Inl e, evs, w') \<Rightarrow>
                (case e of
                   ValueError msg \<Rightarrow> (Returned, evs @ [St_error msg] @ contact_section, w')
                 | _ \<Rightarrow> (Raised e, evs, w'))))
      else (Returned, contact_section, w))"

section \<open>Reading the outputs back\<close>

text \<open>
  What a reader of a tab-separated file sees: the lines ended by CR LF (a last line
  without the ending counts too), each split at every tab.
\<close>

fun split_on :: "char \<Rightarrow> string \<Rightarrow> string list" where
  "split_on sep [] = [[]]"
| "split_on sep (c # cs) =
     (if c = sep then [] # split_on sep cs
      else (case split_on sep cs of [] \<Rightarrow> [[c]] | f # fs \<Rightarrow> (c # f) # fs))"

fun crlf_lines :: "string \<Rightarrow> string \<Rightarrow> string list" where
  "crlf_lines cur [] = (if cur = [] then [] else [cur])"
| "crlf_lines cur [c] = [cur @ [c]]"
| "crlf_lines cur (c # d # cs) =
     (if c = CHR 0x0D \<and> d = CHR 0x0A then cur # crlf_lines [] cs
      else crlf_lines (cur @ [c]) (d # cs))"

definition tsv_rows :: "string \<Rightarrow> string list list" where
  "tsv_rows text = map (split_on (CHR 0x09)) (crlf_lines [] text)"

text \<open>
  The number a decimal numeral denotes: an optional minus sign, the digits before the
  point, the digits after it.
\<close>

definition digit_val :: "char \<Rightarrow> nat" where
  "digit_val c = of_char c - 48"

definition read_nat :: "string \<Rightarrow> nat" where
  "read_nat s = foldl (\<lambda>a c. 10 * a + digit_val c) 0 s"

definition whole_digits :: "string \<Rightarrow> string" where
  "whole_digits s = takeWhile (\<lambda>c. c \<noteq> CHR ''.'') s"

definition fraction_digits :: "string \<Rightarrow> string" where
  "fraction_digits s = tl (dropWhile (\<lambda>c. c \<noteq> CHR ''.'') s)"

definition read_unsigned :: "string \<Rightarrow> rat" where
  "read_unsigned s =
     of_nat (read_nat (whole_digits s))
       + of_nat (read_nat (fraction_digits s)) / 10 ^ length (fraction_digits s)"

fun read_fixed :: "string \<Rightarrow> rat" where
  "read_fixed [] = 0"
| "read_fixed (c # cs) = (if c = CHR ''-'' then - read_unsigned cs else read_unsigned (c # cs))"

text \<open>The number a finite float denotes; the negative zero denotes 0.\<close>

fun finite_value :: "pyfloat \<Rightarrow> rat option" where
  "finite_value (Finite q) = Some q"
| "finite_value NegZero = Some 0"
| "finite_value x = None"

text \<open>What the page shows: the Streamlit calls among the events.\<close>

fun is_display :: "event \<Rightarrow> bool" where
  "is_display (St_text s) = True"
| "is_display (St_table df) = True"
| "is_display (St_markdown s) = True"
| "is_display (St_html h) = True"
| "is_display (St_error s) = True"
| "is_display (St_write s) = True"
| "is_display (St_header s) = True"
| "is_display (St_columns n) = True"
| "is_display St_empty = True"
| "is_display ev = False"

text \<open>
  The invariant of the \<open>@st.cache_data\<close> store: every entry is what the body returns for
  its key.
\<close>

definition cache_ok :: "('mol, 'model) env \<Rightarrow> (string \<times> dataframe) list \<Rightarrow> bool" where
  "cache_ok env c = list_all (\<lambda>p. fst (calculate_lipinski_descriptors env (fst p)) = Inr (snd p)) c"

section \<open>Test doubles\<close>

text \<open>
  A concrete environment for running the model: a parser that accepts only ethanol, a
  pickle loader that returns the file content as the predictor, a classifier answering 1
  and a regressor answering the double nearest to 6.12345, a script that succeeds and
  writes its output file, and a search without results. The CSV reader knows three
  files: a well-formed one, one whose feature cell is not a number, and one without the
  \<open>Name\<close> column; it raises on any other text.
\<close>

definition demo_csv :: string where
  "demo_csv = ''Name,F1'' @ [CHR 0x0A] @ ''Compound_name,3'' @ [CHR 0x0A]"

definition demo_frame :: dataframe where
  "demo_frame = \<lparr>columns = [''Name'', ''F1''],
                  rows = [[StrCell ''Compound_name'', NumCell (PyInt 3)]]\<rparr>"

definition text_cell_csv :: string where
  "text_cell_csv = ''Name,F1'' @ [CHR 0x0A] @ ''Compound_name,abc'' @ [CHR 0x0A]"

definition text_cell_frame :: dataframe where
  "text_cell_frame = \<lparr>columns = [''Name'', ''F1''],
                       rows = [[StrCell ''Compound_name'', StrCell ''abc'']]\<rparr>"

definition nameless_csv :: string where
  "nameless_csv = ''F1'' @ [CHR 0x0A] @ ''3'' @ [CHR 0x0A]"

definition nameless_frame :: dataframe where
  "nameless_frame = \<lparr>columns = [''F1''], rows = [[NumCell (PyInt 3)]]\<rparr>"

definition demo_env :: "(string, string) env" where
  "demo_env =
     \<lparr>MolFromSmiles = (\<lambda>s. if s = ''CCO'' then Some s else None),
      MolWt = (\<lambda>m. Finite (4607 / 100)),
      MolLogP = (\<lambda>m. Finite (- 14 / 10000)),
      NumHDonors = (\<lambda>m. 1),
      NumHAcceptors = (\<lambda>m. 1),
      pickle_load = (\<lambda>bytes. Inr bytes),
      predict = (\<lambda>m df. if m = ''classifier'' then Inr [PyInt 1]
                         else Inr [PyFloat (Finite (3447195892277733 / 562949953421312))]),
      subprocess_call = (\<lambda>argv fs. (0, fs(''descriptors_output.csv'' \<mapsto> demo_csv))),
      read_csv_text = (\<lambda>text. if text = demo_csv then Inr demo_frame
                               else if text = text_cell_csv then Inr text_cell_frame
                               else if text = nameless_csv then Inr nameless_frame
                               else Inl (ValueError ''No columns to parse from file'')),
      pdb_search = (\<lambda>q. Inr []),
      numpy_empty_truth =
        Inl (ValueError
          (''The truth value of an empty array is ambiguous. ''
             @ ''Use `array.size > 0` to check that an array is not empty.''))\<rparr>"

definition demo_world :: world where
  "demo_world =
     \<lparr>files = [''lipinsky_model.pkl'' \<mapsto> ''classifier'', ''model.pkl'' \<mapsto> ''regressor''],
      cache = []\<rparr>"

text \<open>The same directory after an earlier run has left its output file behind.\<close>

definition stale_world :: world where
  "stale_world =
     demo_world\<lparr>files := (files demo_world)(''descriptors_output.csv'' \<mapsto> demo_csv)\<rparr>"

text \<open>A script that fails with exit code 1 and touches no file.\<close>

definition failing_script_env :: "(string, string) env" where
  "failing_script_env = demo_env\<lparr>subprocess_call := (\<lambda>argv fs. (1, fs))\<rparr>"

text \<open>The same environment with a classifier that answers the integer code \<open>k\<close>.\<close>

definition coded_env :: "int \<Rightarrow> (string, string) env" where
  "coded_env k = demo_env\<lparr>predict := (\<lambda>m df. Inr [PyInt k])\<rparr>"

text \<open>A working directory without any file.\<close>

definition bare_world :: world where
  "bare_world = \<lparr>files = Map.empty, cache = []\<rparr>"

text \<open>A script whose output file has no \<open>Name\<close> column.\<close>

definition nameless_env :: "(string, string) env" where
  "nameless_env =
     demo_env\<lparr>subprocess_call :=
       (\<lambda>argv fs. (0, fs(''descriptors_output.csv'' \<mapsto> nameless_csv)))\<rparr>"

text \<open>
  A script whose output file has a feature cell that is not a number: the reader accepts
  the file, and the regressor rejects the frame when it is applied to it.
\<close>

definition text_cell_env :: "(string, string) env" where
  "text_cell_env =
     demo_env\<lparr>subprocess_call :=
                (\<lambda>argv fs. (0, fs(''descriptors_output.csv'' \<mapsto> text_cell_csv))),
              predict :=
                (\<lambda>m df. if list_all (list_all (\<lambda>c. case c of NumCell v \<Rightarrow> True
                                                                | StrCell t \<Rightarrow> False))
                                (rows df)
                         then Inr [PyFloat (Finite 6)]
                         else Inl (ValueError ''could not convert string to float''))\<rparr>"

text \<open>A regressor that answers the negative zero.\<close>

definition negzero_env :: "(string, string) env" where
  "negzero_env = demo_env\<lparr>predict := (\<lambda>m df. Inr [PyFloat NegZero])\<rparr>"

text \<open>A regressor that answers NaN.\<close>

definition nan_env :: "(string, string) env" where
  "nan_env = demo_env\<lparr>predict := (\<lambda>m df. Inr [PyFloat NaN])\<rparr>"

section \<open>The protein retriever\<close>

lemma collect_ids_take:
  "collect_ids ids result = ids @ take (10 - length ids) result"
proof (induction result arbitrary: ids)
  case Nil
  show ?case by simp
next
  case (Cons pdb_id result)
  show ?case
  proof (cases "length ids < 10")
    case True
    then have "10 - length ids = Suc (10 - Suc (length ids))" by simp
    with True Cons.IH [of "ids @ [pdb_id]"] show ?thesis by simp
  next
    case False
    with Cons.IH [of ids] show ?thesis by simp
  qed
qed


section \<open>The descriptor cache and the calls of the parser\<close>

lemma cache_ok_map_of:
  "cache_ok env c \<Longrightarrow> map_of c s = Some df \<Longrightarrow>
     fst (calculate_lipinski_descriptors env s) = Inr df"
  by (induction c) (auto simp: cache_ok_def split: if_splits)

lemma cached_lipinski_unfold:
  "cached_lipinski env c s =
     (case map_of c s of
        Some df \<Rightarrow> (Inr df, [], c)
      | None \<Rightarrow>
          (case fst (calculate_lipinski_descriptors env s) of
             Inl e \<Rightarrow> (Inl e, snd (calculate_lipinski_descriptors env s), c)
           | Inr df \<Rightarrow> (Inr df, snd (calculate_lipinski_descriptors env s), (s, df) # c)))"
  by (cases "calculate_lipinski_descriptors env s")
    (simp add: cached_lipinski_def split: option.splits sum.splits)

lemma cached_lipinski_result:
  assumes "cache_ok env c"
  shows "fst (cached_lipinski env c s) = fst (calculate_lipinski_descriptors env s)"
proof (cases "map_of c s")
  case None
  then show ?thesis
    by (simp add: cached_lipinski_unfold split: sum.splits)
next
  case (Some df)
  with assms have "fst (calculate_lipinski_descriptors env s) = Inr df"
    by (simp add: cache_ok_map_of)
  with Some show ?thesis
    by (simp add: cached_lipinski_unfold)
qed

lemma cached_lipinski_cache_ok:
  assumes "cache_ok env c"
  shows "cache_ok env (snd (snd (cached_lipinski env c s)))"
proof (cases "map_of c s")
  case None
  with assms show ?thesis
    by (simp add: cached_lipinski_unfold cache_ok_def split: sum.splits)
next
  case (Some df)
  with assms show ?thesis
    by (simp add: cached_lipinski_unfold)
qed

lemma cached_lipinski_events:
  "set (fst (snd (cached_lipinski env c s))) \<subseteq> {Call_MolFromSmiles s, Call_Descriptors}"
  by (auto simp: cached_lipinski_def calculate_lipinski_descriptors_def
      split: option.splits sum.splits prod.splits)

lemma rejected_not_cached:
  "cache_ok env c \<Longrightarrow> MolFromSmiles env s = None \<Longrightarrow> map_of c s = None"
  using cache_ok_map_of [of env c s]
  by (cases "map_of c s") (auto simp: calculate_lipinski_descriptors_def)

lemma pic50_no_parse: "Call_MolFromSmiles s' \<notin> set (fst (snd (pic50_branch env w s)))"
  by (simp add: pic50_branch_def Let_def split: sum.splits)

lemma proteins_no_parse: "Call_MolFromSmiles s' \<notin> set (fst (snd (proteins_branch env w s)))"
  by (simp add: proteins_branch_def split: sum.splits)

lemma main_PIC50_no_parse:
  "Call_MolFromSmiles s' \<notin> set (fst (snd (main env w s PIC50 b)))"
proof -
  obtain r evs w' where run: "pic50_branch env w s = (r, evs, w')"
    by (cases "pic50_branch env w s") auto
  with pic50_no_parse [of s' env w s] have "Call_MolFromSmiles s' \<notin> set evs"
    by simp
  with run show ?thesis
    by (simp add: main_def contact_section_def split: sum.splits pyexn.splits)
qed

lemma main_Proteins_no_parse:
  "Call_MolFromSmiles s' \<notin> set (fst (snd (main env w s Proteins b)))"
proof -
  obtain r evs w' where run: "proteins_branch env w s = (r, evs, w')"
    by (cases "proteins_branch env w s") auto
  with proteins_no_parse [of s' env w s] have "Call_MolFromSmiles s' \<notin> set evs"
    by simp
  with run show ?thesis
    by (simp add: main_def contact_section_def split: sum.splits pyexn.splits)
qed

section \<open>Nothing is displayed before a failure\<close>

lemma cached_lipinski_no_display:
  "filter is_display (fst (snd (cached_lipinski env c s))) = []"
  by (simp add: cached_lipinski_unfold calculate_lipinski_descriptors_def
      split: option.splits sum.splits)

lemma lipinski_failure_no_display:
  "lipinski_branch env w s = (Inl e, evs, w') \<Longrightarrow> filter is_display evs = []"
  using cached_lipinski_no_display [of env "cache w" s]
  by (cases "cached_lipinski env (cache w) s")
    (auto simp: lipinski_branch_def split: sum.splits)

lemma activity_failure_no_display:
  "activity_branch env w s = (Inl e, evs, w') \<Longrightarrow> filter is_display evs = []"
  using cached_lipinski_no_display [of env "cache w" s]
  by (cases "cached_lipinski env (cache w) s")
    (auto simp: activity_branch_def split: sum.splits)

lemma pic50_failure_no_display:
  "pic50_branch env w s = (Inl e, evs, w') \<Longrightarrow> filter is_display evs = []"
  by (auto simp: pic50_branch_def Let_def split: sum.splits)

lemma proteins_failure_no_display:
  "proteins_branch env w s = (Inl e, evs, w') \<Longrightarrow> filter is_display evs = []"
  by (auto simp: proteins_branch_def split: sum.splits)

section \<open>The first steps of the potency branch\<close>

lemma pic50_exit_code:
  "pic50_branch (env\<lparr>subprocess_call := (\<lambda>argv fs. (code, effect argv fs))\<rparr>) w s
     = pic50_branch (env\<lparr>subprocess_call := (\<lambda>argv fs. (0, effect argv fs))\<rparr>) w s"
  by (simp add: pic50_branch_def read_csv_def load_model_def Let_def
      cong: sum.case_cong option.case_cong)

lemma pic50_read_failure:
  assumes "read_csv env
             (snd (subprocess_call env [''bash'', ''./padel.sh'']
                (generate_csv_file s ''Compound_name'' ''molecule.smi'' (files w))))
             ''descriptors_output.csv'' = Inl e"
  shows "pic50_branch env w s =
           (Inl e,
            [Write_file ''molecule.smi'' (generate_csv_text s ''Compound_name''),
             Call_subprocess [''bash'', ''./padel.sh''],
             Call_read_csv ''descriptors_output.csv''],
            w\<lparr>files := snd (subprocess_call env [''bash'', ''./padel.sh'']
                (generate_csv_file s ''Compound_name'' ''molecule.smi'' (files w)))\<rparr>)"
  using assms by (simp add: pic50_branch_def Let_def)

lemma pic50_drop_failure:
  assumes "read_csv env
             (snd (subprocess_call env [''bash'', ''./padel.sh'']
                (generate_csv_file s ''Compound_name'' ''molecule.smi'' (files w))))
             ''descriptors_output.csv'' = Inr data"
    and "drop_column ''Name'' data = Inl e"
  shows "pic50_branch env w s =
           (Inl e,
            [Write_file ''molecule.smi'' (generate_csv_text s ''Compound_name''),
             Call_subprocess [''bash'', ''./padel.sh''],
             Call_read_csv ''descriptors_output.csv''],
            w\<lparr>files := snd (subprocess_call env [''bash'', ''./padel.sh'']
                (generate_csv_file s ''Compound_name'' ''molecule.smi'' (files w)))\<rparr>)"
  using assms by (simp add: pic50_branch_def Let_def)

lemma pic50_success:
  assumes "read_csv env
             (snd (subprocess_call env [''bash'', ''./padel.sh'']
                (generate_csv_file s ''Compound_name'' ''molecule.smi'' (files w))))
             ''descriptors_output.csv'' = Inr data"
    and "drop_column ''Name'' data = Inr X"
    and "load_model env
             (snd (subprocess_call env [''bash'', ''./padel.sh'']
                (generate_csv_file s ''Compound_name'' ''molecule.smi'' (files w))))
             ''model.pkl'' = Inr loaded_model"
    and "predict env loaded_model X = Inr (predicted_value # others)"
    and "format_2f_num predicted_value = Inr formatted"
  shows "pic50_branch env w s =
           (Inr (),
            [Write_file ''molecule.smi'' (generate_csv_text s ''Compound_name''),
             Call_subprocess [''bash'', ''./padel.sh''],
             Call_read_csv ''descriptors_output.csv'',
             Call_pickle_load ''model.pkl'',
             Call_predict X,
             St_text (''The pIC50 of your compound is '' @ formatted)],
            w\<lparr>files := snd (subprocess_call env [''bash'', ''./padel.sh'']
                (generate_csv_file s ''Compound_name'' ''molecule.smi'' (files w)))\<rparr>)"
  using assms by (simp add: pic50_branch_def Let_def)

lemma read_csv_subprocess_update:
  "read_csv (env\<lparr>subprocess_call := f\<rparr>) fs filename = read_csv env fs filename"
  by (simp add: read_csv_def cong: option.case_cong)

lemma load_model_subprocess_update:
  "load_model (env\<lparr>subprocess_call := f\<rparr>) fs filename = load_model env fs filename"
  by (simp add: load_model_def cong: option.case_cong)

lemma pic50_load_failure:
  assumes "read_csv env
             (snd (subprocess_call env [''bash'', ''./padel.sh'']
                (generate_csv_file s ''Compound_name'' ''molecule.smi'' (files w))))
             ''descriptors_output.csv'' = Inr data"
    and "drop_column ''Name'' data = Inr X"
    and "load_model env
             (snd (subprocess_call env [''bash'', ''./padel.sh'']
                (generate_csv_file s ''Compound_name'' ''molecule.smi'' (files w))))
             ''model.pkl'' = Inl e"
  shows "fst (snd (pic50_branch env w s)) =
            [Write_file ''molecule.smi'' (generate_csv_text s ''Compound_name''),
             Call_subprocess [''bash'', ''./padel.sh''],
             Call_read_csv ''descriptors_output.csv'',
             Call_pickle_load ''model.pkl'']"
  using assms by (simp add: pic50_branch_def Let_def)

lemma pic50_inference:
  assumes "read_csv env
             (snd (subprocess_call env [''bash'', ''./padel.sh'']
                (generate_csv_file s ''Compound_name'' ''molecule.smi'' (files w))))
             ''descriptors_output.csv'' = Inr data"
    and "drop_column ''Name'' data = Inr X"
    and "load_model env
             (snd (subprocess_call env [''bash'', ''./padel.sh'']
                (generate_csv_file s ''Compound_name'' ''molecule.smi'' (files w))))
             ''model.pkl'' = Inr loaded_model"
  shows "take 5 (fst (snd (pic50_branch env w s))) =
            [Write_file ''molecule.smi'' (generate_csv_text s ''Compound_name''),
             Call_subprocess [''bash'', ''./padel.sh''],
             Call_read_csv ''descriptors_output.csv'',
             Call_pickle_load ''model.pkl'',
             Call_predict X]"
  using assms by (simp add: pic50_branch_def Let_def split: sum.splits)

lemma main_trace_extends:
  assumes "s \<noteq> []"
  shows "\<exists>rest. fst (snd (main env w s t True)) = fst (snd (try_body env w s t)) @ rest"
proof -
  obtain r evs w' where run: "try_body env w s t = (r, evs, w')"
    by (cases "try_body env w s t") auto
  show ?thesis
  proof (cases r)
    case (Inr u)
    with run assms show ?thesis by (simp add: main_def)
  next
    case (Inl e)
    with run assms show ?thesis by (cases e) (simp_all add: main_def)
  qed
qed

section \<open>Decimal numerals\<close>

lemma small_cases:
  "(d::nat) < 10 \<Longrightarrow> d = 0 \<or> d = 1 \<or> d = 2 \<or> d = 3 \<or> d = 4 \<or> d = 5 \<or> d = 6 \<or> d = 7 \<or> d = 8 \<or> d = 9"
  by arith

lemma digit_char_props:
  "digit_val (digit_char d) = d mod 10 \<and> digit_char d \<noteq> CHR ''.'' \<and> digit_char d \<noteq> CHR ''-''"
proof -
  have "d mod 10 < 10" by simp
  then have "d mod 10 = 0 \<or> d mod 10 = 1 \<or> d mod 10 = 2 \<or> d mod 10 = 3 \<or> d mod 10 = 4
      \<or> d mod 10 = 5 \<or> d mod 10 = 6 \<or> d mod 10 = 7 \<or> d mod 10 = 8 \<or> d mod 10 = 9"
    by (rule small_cases)
  then show ?thesis
    by (elim disjE) (simp_all add: digit_char_def digit_val_def)
qed

lemma read_nat_snoc: "read_nat (xs @ [c]) = 10 * read_nat xs + digit_val c"
  by (simp add: read_nat_def)

lemma read_nat_decimal: "read_nat (decimal n) = n"
proof (induction n rule: decimal.induct)
  case (1 n)
  show ?case
  proof (cases "n < 10")
    case True
    then show ?thesis
      by (simp add: decimal.simps [of n] read_nat_def digit_char_props)
  next
    case False
    with "1.IH" have "read_nat (decimal (n div 10)) = n div 10" by simp
    with False show ?thesis
      by (simp add: decimal.simps [of n] read_nat_snoc digit_char_props)
  qed
qed

lemma decimal_chars: "c \<in> set (decimal n) \<Longrightarrow> c \<noteq> CHR ''.'' \<and> c \<noteq> CHR ''-''"
proof (induction n rule: decimal.induct)
  case (1 n)
  show ?case
  proof (cases "n < 10")
    case True
    with "1.prems" show ?thesis
      by (simp add: decimal.simps [of n] digit_char_props)
  next
    case False
    with "1.prems" "1.IH" show ?thesis
      by (auto simp: decimal.simps [of n] digit_char_props)
  qed
qed

lemma decimal_nonempty: "decimal n \<noteq> []"
  by (simp add: decimal.simps [of n])

lemma whole_digits_fixed2: "whole_digits (fixed2 n) = decimal (n div 100)"
proof -
  have "\<forall>c \<in> set (decimal (n div 100)). c \<noteq> CHR ''.''"
    using decimal_chars by blast
  then show ?thesis
    by (simp add: whole_digits_def fixed2_def takeWhile_append2)
qed

lemma fraction_digits_fixed2:
  "fraction_digits (fixed2 n) = [digit_char (n div 10 mod 10), digit_char (n mod 10)]"
proof -
  have "\<forall>c \<in> set (decimal (n div 100)). c \<noteq> CHR ''.''"
    using decimal_chars by blast
  then show ?thesis
    by (simp add: fraction_digits_def fixed2_def dropWhile_append2)
qed

lemma read_unsigned_fixed2: "read_unsigned (fixed2 n) = of_nat n / 100"
proof -
  have "n mod (10 * 10) = 10 * (n div 10 mod 10) + n mod 10"
    by (rule mod_mult2_eq)
  then have two: "10 * (n div 10 mod 10) + n mod 10 = n mod 100"
    by simp
  have "read_nat [digit_char (n div 10 mod 10), digit_char (n mod 10)]
      = 10 * (n div 10 mod 10 mod 10) + n mod 10 mod 10"
    by (simp add: read_nat_def digit_char_props)
  then have frac: "read_nat [digit_char (n div 10 mod 10), digit_char (n mod 10)] = n mod 100"
    using two by simp
  have "n = 100 * (n div 100) + n mod 100"
    by simp
  then have "(of_nat n :: rat) = of_nat (100 * (n div 100) + n mod 100)"
    by simp
  also have "\<dots> = 100 * of_nat (n div 100) + of_nat (n mod 100)"
    by (simp only: of_nat_add of_nat_mult of_nat_numeral)
  finally have split: "(of_nat n :: rat) = 100 * of_nat (n div 100) + of_nat (n mod 100)" .
  have "read_unsigned (fixed2 n) = of_nat (n div 100) + of_nat (n mod 100) / 100"
    by (simp add: read_unsigned_def whole_digits_fixed2 fraction_digits_fixed2 read_nat_decimal
        frac)
  also have "\<dots> = (100 * of_nat (n div 100) + of_nat (n mod 100)) / 100"
    by (simp add: add_divide_distrib)
  also have "\<dots> = of_nat n / 100"
    by (simp only: split)
  finally show ?thesis .
qed

lemma fixed2_first: "\<exists>c cs. fixed2 n = c # cs \<and> c \<noteq> CHR ''-''"
proof -
  obtain c cs where d: "decimal (n div 100) = c # cs"
    using decimal_nonempty [of "n div 100"] by (cases "decimal (n div 100)") auto
  then have "c \<in> set (decimal (n div 100))" by simp
  then have "c \<noteq> CHR ''-''" using decimal_chars by blast
  with d show ?thesis by (simp add: fixed2_def)
qed

lemma round_half_even_near: "\<bar>of_int (round_half_even x) - x\<bar> \<le> 1 / 2"
proof -
  have lo: "of_int \<lfloor>x\<rfloor> \<le> x" and hi: "x < of_int \<lfloor>x\<rfloor> + 1"
    by linarith+
  consider (low) "x - of_int \<lfloor>x\<rfloor> < 1 / 2" | (high) "1 / 2 < x - of_int \<lfloor>x\<rfloor>"
    | (tie) "x - of_int \<lfloor>x\<rfloor> = 1 / 2"
    by linarith
  then show ?thesis
  proof cases
    case low
    then have "round_half_even x = \<lfloor>x\<rfloor>"
      by (simp add: round_half_even_def Let_def)
    with lo low show ?thesis by simp
  next
    case high
    then have "round_half_even x = \<lfloor>x\<rfloor> + 1"
      by (simp add: round_half_even_def Let_def)
    with hi high show ?thesis by simp
  next
    case tie
    then have "round_half_even x = \<lfloor>x\<rfloor> \<or> round_half_even x = \<lfloor>x\<rfloor> + 1"
      by (simp add: round_half_even_def Let_def)
    with tie show ?thesis by auto
  qed
qed

lemma round_half_even_nonneg:
  assumes "0 \<le> x"
  shows "0 \<le> round_half_even x"
proof -
  from assms have "0 \<le> \<lfloor>x\<rfloor>" by simp
  moreover have "round_half_even x = \<lfloor>x\<rfloor> \<or> round_half_even x = \<lfloor>x\<rfloor> + 1"
    by (simp add: round_half_even_def Let_def)
  ultimately show ?thesis by auto
qed

lemma read_fixed_format_2f:
  "read_fixed (format_2f (Finite q))
     = (if q < 0 then - 1 else 1) * of_int (round_half_even (\<bar>q\<bar> * 100)) / 100"
proof -
  define m where "m = round_half_even (\<bar>q\<bar> * 100)"
  have "0 \<le> m"
    unfolding m_def by (rule round_half_even_nonneg) simp
  then have val: "read_unsigned (fixed2 (nat m)) = of_int m / 100"
    by (simp add: read_unsigned_fixed2)
  have fmt: "format_2f (Finite q) = (if q < 0 then ''-'' else []) @ fixed2 (nat m)"
    unfolding m_def by simp
  obtain c cs where first: "fixed2 (nat m) = c # cs" and c: "c \<noteq> CHR ''-''"
    using fixed2_first by blast
  have plain: "read_fixed (fixed2 (nat m)) = read_unsigned (fixed2 (nat m))"
    unfolding first using c by simp
  have "read_fixed (format_2f (Finite q)) = (if q < 0 then - 1 else 1) * of_int m / 100"
  proof (cases "q < 0")
    case True
    then have "read_fixed (format_2f (Finite q)) = - read_unsigned (fixed2 (nat m))"
      unfolding fmt by simp
    with True val show ?thesis by simp
  next
    case False
    then have "read_fixed (format_2f (Finite q)) = read_unsigned (fixed2 (nat m))"
      unfolding fmt using plain by simp
    with False val show ?thesis by simp
  qed
  then show ?thesis
    unfolding m_def .
qed

lemma read_fixed_near: "\<bar>read_fixed (format_2f (Finite q)) - q\<bar> \<le> 1 / 200"
proof -
  define m where "m = round_half_even (\<bar>q\<bar> * 100)"
  define v where "v = read_fixed (format_2f (Finite q))"
  have near: "\<bar>of_int m - \<bar>q\<bar> * 100\<bar> \<le> 1 / 2"
    unfolding m_def by (rule round_half_even_near)
  have val: "v = (if q < 0 then - 1 else 1) * of_int m / 100"
    unfolding m_def v_def by (rule read_fixed_format_2f)
  have "\<bar>v - q\<bar> \<le> 1 / 200"
  proof (cases "q < 0")
    case True
    with near have "\<bar>of_int m + q * 100\<bar> \<le> 1 / 2" by simp
    then have bound: "\<bar>- (of_int m / 100) - q\<bar> \<le> 1 / 200"
      by linarith
    from True val have v: "v = - (of_int m / 100)" by simp
    show ?thesis unfolding v by (rule bound)
  next
    case False
    with near have "\<bar>of_int m - q * 100\<bar> \<le> 1 / 2" by simp
    then have bound: "\<bar>of_int m / 100 - q\<bar> \<le> 1 / 200"
      by linarith
    from False val have v: "v = of_int m / 100" by simp
    show ?thesis unfolding v by (rule bound)
  qed
  then show ?thesis
    unfolding v_def .
qed

lemma fraction_digits_format_2f:
  "length (fraction_digits (format_2f (Finite q))) = 2"
proof -
  have "fraction_digits (CHR ''-'' # s) = fraction_digits s" for s
    by (simp add: fraction_digits_def)
  then show ?thesis
    by (simp add: fraction_digits_fixed2)
qed

section \<open>The CSV writer on plain fields\<close>

lemma csv_field_plain: "\<not> list_ex csv_special f \<Longrightarrow> csv_field f = f"
  by (simp add: csv_field_def)

lemma generate_csv_text_plain:
  assumes "\<not> list_ex csv_special (string1 @ string2)"
  shows "generate_csv_text string1 string2
           = string1 @ [CHR 0x09] @ string2 @ [CHR 0x0D, CHR 0x0A]"
proof -
  have "\<not> csv_special (CHR 0x09)"
    by (simp add: csv_special_def)
  with assms have "\<not> list_ex csv_special (string1 @ [CHR 0x09] @ string2)"
    by simp
  then have "csv_field (string1 @ [CHR 0x09] @ string2) = string1 @ [CHR 0x09] @ string2"
    by (rule csv_field_plain)
  then show ?thesis
    by (simp add: generate_csv_text_def csv_writerows_def csv_writerow_def)
qed

lemma split_on_absent: "sep \<notin> set s \<Longrightarrow> split_on sep s = [s]"
  by (induction s) auto

lemma split_on_first:
  "sep \<notin> set s1 \<Longrightarrow> split_on sep (s1 @ sep # s2) = s1 # split_on sep s2"
  by (induction s1) auto

lemma crlf_lines_single:
  "CHR 0x0D \<notin> set xs \<Longrightarrow> crlf_lines cur (xs @ [CHR 0x0D, CHR 0x0A]) = [cur @ xs]"
proof (induction xs arbitrary: cur)
  case Nil
  show ?case by simp
next
  case (Cons c cs)
  then have c: "c \<noteq> CHR 0x0D" and cs: "CHR 0x0D \<notin> set cs" by auto
  obtain d ds where shape: "cs @ [CHR 0x0D, CHR 0x0A] = d # ds"
    by (cases cs) auto
  have "crlf_lines cur ((c # cs) @ [CHR 0x0D, CHR 0x0A]) = crlf_lines cur (c # d # ds)"
    using shape by simp
  also have "\<dots> = crlf_lines (cur @ [c]) (d # ds)"
    using c by simp
  also have "\<dots> = [(cur @ [c]) @ cs]"
    unfolding shape [symmetric] using cs by (rule Cons.IH)
  finally show ?case by simp
qed

section \<open>The retrieved identifiers\<close>

text \<open>
  C5. For every sequence of identifiers the search yields, the retriever keeps exactly the
  first \<open>min 10 n\<close> of them, in their order and with repetitions kept, and the branch
  displays them joined by a comma and a space; an empty sequence gives an empty display,
  not an error.
\<close>

theorem C5_retriever_first_ten:
  "collect_ids [] result = take 10 result \<and>
   length (collect_ids [] result) = min 10 (length result) \<and>
   (smiles_input \<noteq> [] \<and> pdb_search env smiles_input = Inr result \<longrightarrow>
      main env w smiles_input Proteins True =
        (Returned,
         [Call_search smiles_input, St_markdown (str_join '', '' (take 10 result))]
           @ contact_section,
         w))"
proof -
  have take: "collect_ids [] result = take 10 result"
    using collect_ids_take [of "[]" result] by simp
  have len: "length (collect_ids [] result) = min 10 (length result)"
    unfolding take by (simp add: min.commute)
  have run: "main env w smiles_input Proteins True =
        (Returned,
         [Call_search smiles_input, St_markdown (str_join '', '' (take 10 result))]
           @ contact_section,
         w)"
    if "smiles_input \<noteq> []" and "pdb_search env smiles_input = Inr result"
    using that by (simp add: main_def proteins_branch_def take)
  from take len run show ?thesis by blast
qed

theorem C5_retriever_first_ten_witness:
  "collect_ids []
     [''1abc'', ''2xyz'', ''1abc'', ''4hhb'', ''5tim'', ''6lyz'', ''7rsa'', ''8cat'', ''9ins'',
      ''1abc'', ''2def'', ''3ghi'', ''4jkl'', ''5mno'', ''6pqr'']
     = [''1abc'', ''2xyz'', ''1abc'', ''4hhb'', ''5tim'', ''6lyz'', ''7rsa'', ''8cat'', ''9ins'',
        ''1abc'']
   \<and> collect_ids [] [''1abc'', ''2xyz'', ''1abc''] = [''1abc'', ''2xyz'', ''1abc'']
   \<and> collect_ids [] [] = []
   \<and> main demo_env demo_world ''CCO'' Proteins True
        = (Returned, [Call_search ''CCO'', St_markdown []] @ contact_section, demo_world)"
proof -
  have search: "''CCO'' \<noteq> [] \<and> pdb_search demo_env ''CCO'' = Inr []"
    by (simp add: demo_env_def)
  show ?thesis
    using C5_retriever_first_ten
      [of "[''1abc'', ''2xyz'', ''1abc'', ''4hhb'', ''5tim'', ''6lyz'', ''7rsa'', ''8cat'',
            ''9ins'', ''1abc'', ''2def'', ''3ghi'', ''4jkl'', ''5mno'', ''6pqr'']"]
      C5_retriever_first_ten [of "[''1abc'', ''2xyz'', ''1abc'']"]
      C5_retriever_first_ten [of "[]" "''CCO''" demo_env demo_world]
      search
    by simp
qed

section \<open>The empty input\<close>

text \<open>
  C10. With an empty text field, pressing Run displays the prompt and runs no task branch,
  whichever task is selected: the events of the run are the prompt and the contact section
  only (nothing is parsed, loaded, written, executed or queried) and the state is
  unchanged.
\<close>

theorem C10_empty_input_prompt:
  "main env w [] selected_option True =
     (Returned, [St_text ''Enter Canonical SMILES''] @ contact_section, w)
   \<and> filter (\<lambda>ev. \<not> is_display ev) (fst (snd (main env w [] selected_option True))) = []"
  by (simp add: main_def contact_section_def)

theorem C10_empty_input_prompt_witness:
  "main demo_env demo_world [] PIC50 True =
     (Returned,
      [St_text ''Enter Canonical SMILES'', St_write ''---'', St_header ''Please contact us!'',
       St_columns 2, St_html ContactForm, St_empty],
      demo_world)"
  using C10_empty_input_prompt [of demo_env demo_world PIC50]
  by (simp add: contact_section_def)

section \<open>The activity label\<close>

text \<open>
  C1. When the classifier returns the single code \<open>code\<close> for the descriptor row, the
  activity branch displays \<open>Active\<close> exactly when the code is the number 1 and
  \<open>Inactive\<close> for every other code.
\<close>

theorem C1_activity_label:
  assumes "smiles_input \<noteq> []"
    and "load_model env (files w) ''lipinsky_model.pkl'' = Inr loaded_model"
    and "cached_lipinski env (cache w) smiles_input = (Inr df, evs, c)"
    and "predict env loaded_model df = Inr [code]"
  shows "main env w smiles_input Activity True =
           (Returned,
            [Call_pickle_load ''lipinsky_model.pkl''] @ evs
              @ [Call_predict df,
                 St_text (if code = PyInt 1 \<or> code = PyFloat (Finite 1)
                          then ''Active'' else ''Inactive'')]
              @ contact_section,
            w\<lparr>cache := c\<rparr>)"
proof -
  have "num_eq_1 code \<longleftrightarrow> code = PyInt 1 \<or> code = PyFloat (Finite 1)"
    by (cases code) auto
  with assms show ?thesis
    by (simp add: main_def activity_branch_def)
qed

theorem C1_activity_label_witness:
  "St_text ''Active'' \<in> set (fst (snd (main (coded_env 1) demo_world ''CCO'' Activity True)))
   \<and> St_text ''Inactive'' \<in> set (fst (snd (main (coded_env 0) demo_world ''CCO'' Activity True)))
   \<and> St_text ''Inactive'' \<in> set (fst (snd (main (coded_env 7) demo_world ''CCO'' Activity True)))
   \<and> St_text ''Active'' \<notin> set (fst (snd (main (coded_env 7) demo_world ''CCO'' Activity True)))"
proof -
  have load: "load_model (coded_env k) (files demo_world) ''lipinsky_model.pkl'' = Inr ''classifier''"
    for k
    by (simp add: load_model_def coded_env_def demo_env_def demo_world_def)
  obtain df where frame: "fst (calculate_lipinski_descriptors demo_env ''CCO'') = Inr df"
    by (simp add: calculate_lipinski_descriptors_def demo_env_def)
  have cached: "cached_lipinski (coded_env k) (cache demo_world) ''CCO'' =
      (Inr df, [Call_MolFromSmiles ''CCO'', Call_Descriptors], [(''CCO'', df)])" for k
    using frame
    by (auto simp add: cached_lipinski_def calculate_lipinski_descriptors_def coded_env_def
        demo_env_def demo_world_def)
  have pred: "predict (coded_env k) ''classifier'' df = Inr [PyInt k]" for k
    by (simp add: coded_env_def)
  have ne: "''CCO'' \<noteq> []" by simp
  show ?thesis
    using C1_activity_label [OF ne load cached pred, of 1]
      C1_activity_label [OF ne load cached pred, of 0]
      C1_activity_label [OF ne load cached pred, of 7]
    by (simp add: contact_section_def)
qed

section \<open>Determinism of the descriptor engine\<close>

text \<open>
  C9. For a string the parser accepts, two calls of the memoised descriptor function give
  the same frame: the second of two successive calls, and a call from any other store
  that satisfies the invariant. The frame has the four columns and the single row computed
  from the molecule, and the only effects of a call are the RDKit calls of the body; the
  function reads neither the files nor anything else of the state.
\<close>

theorem C9_lipinski_deterministic:
  assumes "MolFromSmiles env smiles = Some mol" and "cache_ok env c" and "cache_ok env c'"
  shows "fst (cached_lipinski env (snd (snd (cached_lipinski env c smiles))) smiles)
           = fst (cached_lipinski env c smiles)
       \<and> fst (cached_lipinski env c' smiles) = fst (cached_lipinski env c smiles)
       \<and> fst (cached_lipinski env c smiles)
           = Inr \<lparr>columns = [''MW'', ''LogP'', ''NumHDonors'', ''NumHAcceptors''],
                  rows = [[NumCell (PyFloat (MolWt env mol)),
                           NumCell (PyFloat (MolLogP env mol)),
                           NumCell (PyInt (NumHDonors env mol)),
                           NumCell (PyInt (NumHAcceptors env mol))]]\<rparr>
       \<and> set (fst (snd (cached_lipinski env c smiles)))
           \<subseteq> {Call_MolFromSmiles smiles, Call_Descriptors}"
proof -
  have body: "fst (calculate_lipinski_descriptors env smiles)
      = Inr \<lparr>columns = [''MW'', ''LogP'', ''NumHDonors'', ''NumHAcceptors''],
                  rows = [[NumCell (PyFloat (MolWt env mol)),
                           NumCell (PyFloat (MolLogP env mol)),
                           NumCell (PyInt (NumHDonors env mol)),
                           NumCell (PyInt (NumHAcceptors env mol))]]\<rparr>"
    using assms(1) by (simp add: calculate_lipinski_descriptors_def)
  have first: "fst (cached_lipinski env c smiles) = fst (calculate_lipinski_descriptors env smiles)"
    using assms(2) by (rule cached_lipinski_result)
  have other: "fst (cached_lipinski env c' smiles) = fst (calculate_lipinski_descriptors env smiles)"
    using assms(3) by (rule cached_lipinski_result)
  have "cache_ok env (snd (snd (cached_lipinski env c smiles)))"
    using assms(2) by (rule cached_lipinski_cache_ok)
  then have second: "fst (cached_lipinski env (snd (snd (cached_lipinski env c smiles))) smiles)
      = fst (calculate_lipinski_descriptors env smiles)"
    by (rule cached_lipinski_result)
  show ?thesis
    using body first other second cached_lipinski_events [of env c smiles] by simp
qed

theorem C9_lipinski_deterministic_witness:
  "fst (cached_lipinski demo_env (snd (snd (cached_lipinski demo_env [] ''CCO''))) ''CCO'')
     = fst (cached_lipinski demo_env [] ''CCO'')
   \<and> fst (cached_lipinski demo_env [] ''CCO'')
     = Inr \<lparr>columns = [''MW'', ''LogP'', ''NumHDonors'', ''NumHAcceptors''],
            rows = [[NumCell (PyFloat (Finite (4607 / 100))),
                     NumCell (PyFloat (Finite (- 14 / 10000))),
                     NumCell (PyInt 1), NumCell (PyInt 1)]]\<rparr>"
proof -
  have valid: "MolFromSmiles demo_env ''CCO'' = Some ''CCO''"
    by (simp add: demo_env_def)
  have empty: "cache_ok demo_env []"
    by (simp add: cache_ok_def)
  show ?thesis
    using C9_lipinski_deterministic [OF valid empty empty]
    by (simp add: demo_env_def)
qed

section \<open>Strings the parser rejects\<close>

text \<open>
  C2 as stated fails: the potency branch never calls the parser, so for a string the
  parser would reject it still runs the external tool and the regressor.
\<close>

theorem C2_counterexample:
  "MolFromSmiles demo_env ''xyz'' = None
   \<and> fst (main demo_env demo_world ''xyz'' PIC50 True) = Returned
   \<and> fst (snd (main demo_env demo_world ''xyz'' PIC50 True)) =
       [Write_file ''molecule.smi'' (''xyz'' @ [CHR 0x09] @ ''Compound_name'' @ [CHR 0x0D, CHR 0x0A]),
        Call_subprocess [''bash'', ''./padel.sh''],
        Call_read_csv ''descriptors_output.csv'',
        Call_pickle_load ''model.pkl'',
        Call_predict \<lparr>columns = [''F1''], rows = [[NumCell (PyInt 3)]]\<rparr>,
        St_text ''The pIC50 of your compound is 6.12'',
        St_write ''---'', St_header ''Please contact us!'', St_columns 2, St_html ContactForm,
        St_empty]"
  by code_simp

text \<open>
  C2, amended. For a non-empty string the parser rejects, the descriptor branch and (once
  its predictor file has been loaded) the activity branch end with the single
  \<open>ValueError\<close> "Invalid SMILES string", shown as one error message; no descriptor is
  computed and no prediction is made. The potency and protein branches do not parse the
  string.
\<close>

theorem C2_rejected_string:
  assumes "smiles_input \<noteq> []"
    and "MolFromSmiles env smiles_input = None"
    and "cache_ok env (cache w)"
  shows "main env w smiles_input Lipinski True =
           (Returned,
            [Call_MolFromSmiles smiles_input, St_error ''Invalid SMILES string'']
              @ contact_section,
            w)
       \<and> (load_model env (files w) ''lipinsky_model.pkl'' = Inr loaded_model \<longrightarrow>
            main env w smiles_input Activity True =
              (Returned,
               [Call_pickle_load ''lipinsky_model.pkl'', Call_MolFromSmiles smiles_input,
                St_error ''Invalid SMILES string'']
                 @ contact_section,
               w))
       \<and> Call_MolFromSmiles smiles_input \<notin> set (fst (snd (main env w smiles_input PIC50 True)))
       \<and> Call_MolFromSmiles smiles_input
            \<notin> set (fst (snd (main env w smiles_input Proteins True)))"
proof -
  have "map_of (cache w) smiles_input = None"
    using assms(3) assms(2) by (rule rejected_not_cached)
  then have cached: "cached_lipinski env (cache w) smiles_input =
      (Inl (ValueError ''Invalid SMILES string''), [Call_MolFromSmiles smiles_input], cache w)"
    using assms(2) by (simp add: cached_lipinski_def calculate_lipinski_descriptors_def)
  have lip: "main env w smiles_input Lipinski True =
           (Returned,
            [Call_MolFromSmiles smiles_input, St_error ''Invalid SMILES string'']
              @ contact_section,
            w)"
    using assms(1) cached by (simp add: main_def lipinski_branch_def)
  have act: "main env w smiles_input Activity True =
              (Returned,
               [Call_pickle_load ''lipinsky_model.pkl'', Call_MolFromSmiles smiles_input,
                St_error ''Invalid SMILES string'']
                 @ contact_section,
               w)"
    if "load_model env (files w) ''lipinsky_model.pkl'' = Inr loaded_model"
    using assms(1) cached that by (simp add: main_def activity_branch_def)
  show ?thesis
    using lip act main_PIC50_no_parse main_Proteins_no_parse by blast
qed

theorem C2_rejected_string_witness:
  "main demo_env demo_world ''xyz'' Lipinski True =
     (Returned, [Call_MolFromSmiles ''xyz'', St_error ''Invalid SMILES string''] @ contact_section,
      demo_world)
   \<and> main demo_env demo_world ''xyz'' Activity True =
     (Returned,
      [Call_pickle_load ''lipinsky_model.pkl'', Call_MolFromSmiles ''xyz'',
       St_error ''Invalid SMILES string''] @ contact_section,
      demo_world)"
proof -
  have ne: "''xyz'' \<noteq> []" by simp
  have rejected: "MolFromSmiles demo_env ''xyz'' = None"
    by (simp add: demo_env_def)
  have ok: "cache_ok demo_env (cache demo_world)"
    by (simp add: cache_ok_def demo_world_def)
  have load: "load_model demo_env (files demo_world) ''lipinsky_model.pkl'' = Inr ''classifier''"
    by (simp add: load_model_def demo_env_def demo_world_def)
  show ?thesis
    using C2_rejected_string [OF ne rejected ok, of "''classifier''"] load by simp
qed

section \<open>Failures at the boundary of \<open>main\<close>\<close>

text \<open>
  C6 as stated fails: the handler of \<open>main\<close> names \<open>ValueError\<close> only. When the
  predictor file of the activity branch is missing, the \<open>FileNotFoundError\<close> leaves
  \<open>main\<close> and no message is displayed.
\<close>

theorem C6_counterexample:
  "fst (main demo_env bare_world ''CCO'' Activity True)
     = Raised (FileNotFoundError ''lipinsky_model.pkl'')
   \<and> filter is_display (fst (snd (main demo_env bare_world ''CCO'' Activity True))) = []"
proof -
  have "load_model demo_env (files bare_world) ''lipinsky_model.pkl''
      = Inl (FileNotFoundError ''lipinsky_model.pkl'')"
    by (simp add: load_model_def bare_world_def)
  then show ?thesis
    by (simp add: main_def activity_branch_def)
qed

text \<open>
  C6, amended. When a task branch fails, nothing has been displayed before the failure. A
  \<open>ValueError\<close> is caught by \<open>main\<close> and its text is shown as a single error message
  (followed by the contact section); an exception of any other class leaves \<open>main\<close>
  and nothing at all is displayed.
\<close>

theorem C6_only_ValueError_caught:
  assumes "smiles_input \<noteq> []"
    and "try_body env w smiles_input selected_option = (Inl e, evs, w')"
  shows "filter is_display evs = []
       \<and> (\<forall>msg. e = ValueError msg \<longrightarrow>
            main env w smiles_input selected_option True =
              (Returned, evs @ [St_error msg] @ contact_section, w'))
       \<and> ((\<forall>msg. e \<noteq> ValueError msg) \<longrightarrow>
            main env w smiles_input selected_option True = (Raised e, evs, w'))"
proof -
  have quiet: "filter is_display evs = []"
  proof (cases selected_option)
    case Lipinski
    with assms(2) have "lipinski_branch env w smiles_input = (Inl e, evs, w')" by simp
    then show ?thesis by (rule lipinski_failure_no_display)
  next
    case Activity
    with assms(2) have "activity_branch env w smiles_input = (Inl e, evs, w')" by simp
    then show ?thesis by (rule activity_failure_no_display)
  next
    case PIC50
    with assms(2) have "pic50_branch env w smiles_input = (Inl e, evs, w')" by simp
    then show ?thesis by (rule pic50_failure_no_display)
  next
    case Proteins
    with assms(2) have "proteins_branch env w smiles_input = (Inl e, evs, w')" by simp
    then show ?thesis by (rule proteins_failure_no_display)
  qed
  have caught: "main env w smiles_input selected_option True =
      (Returned, evs @ [St_error msg] @ contact_section, w')" if "e = ValueError msg" for msg
    using assms that by (simp add: main_def)
  have escaped: "main env w smiles_input selected_option True = (Raised e, evs, w')"
    if "\<forall>msg. e \<noteq> ValueError msg"
    using assms that by (cases e) (simp_all add: main_def)
  from quiet caught escaped show ?thesis by blast
qed



theorem C6_only_ValueError_caught_witness:
  "main demo_env demo_world ''xyz'' Lipinski True =
     (Returned, [Call_MolFromSmiles ''xyz'', St_error ''Invalid SMILES string''] @ contact_section,
      demo_world)
   \<and> main demo_env bare_world ''CCO'' Activity True =
     (Raised (FileNotFoundError ''lipinsky_model.pkl''),
      [Call_pickle_load ''lipinsky_model.pkl''], bare_world)"
proof -
  have ne: "''xyz'' \<noteq> []" "''CCO'' \<noteq> []" by simp_all
  have c: "cached_lipinski demo_env (cache demo_world) ''xyz'' =
      (Inl (ValueError ''Invalid SMILES string''), [Call_MolFromSmiles ''xyz''], cache demo_world)"
    by (simp add: cached_lipinski_def calculate_lipinski_descriptors_def demo_env_def
        demo_world_def)
  have a: "try_body demo_env demo_world ''xyz'' Lipinski =
      (Inl (ValueError ''Invalid SMILES string''), [Call_MolFromSmiles ''xyz''], demo_world)"
    by (simp add: lipinski_branch_def c)
  have l: "load_model demo_env (files bare_world) ''lipinsky_model.pkl''
      = Inl (FileNotFoundError ''lipinsky_model.pkl'')"
    by (simp add: load_model_def bare_world_def)
  have b: "try_body demo_env bare_world ''CCO'' Activity =
      (Inl (FileNotFoundError ''lipinsky_model.pkl''),
       [Call_pickle_load ''lipinsky_model.pkl''], bare_world)"
    by (simp add: activity_branch_def l)
  show ?thesis
    using C6_only_ValueError_caught [OF ne(1) a] C6_only_ValueError_caught [OF ne(2) b]
    by simp
qed

section \<open>The exit code of the external tool\<close>

text \<open>
  C3 as stated fails: the value of \<open>subprocess.call\<close> is discarded. When the script exits
  with code 1 and an output file of an earlier run is still in the directory, the branch
  reads that file, runs the regressor and displays a value.
\<close>

theorem C3_counterexample:
  "fst (subprocess_call failing_script_env [''bash'', ''./padel.sh'']
          (generate_csv_file ''CCO'' ''Compound_name'' ''molecule.smi'' (files stale_world))) = 1
   \<and> fst (main failing_script_env stale_world ''CCO'' PIC50 True) = Returned
   \<and> fst (snd (main failing_script_env stale_world ''CCO'' PIC50 True)) =
       [Write_file ''molecule.smi'' (''CCO'' @ [CHR 0x09] @ ''Compound_name'' @ [CHR 0x0D, CHR 0x0A]),
        Call_subprocess [''bash'', ''./padel.sh''],
        Call_read_csv ''descriptors_output.csv'',
        Call_pickle_load ''model.pkl'',
        Call_predict \<lparr>columns = [''F1''], rows = [[NumCell (PyInt 3)]]\<rparr>,
        St_text ''The pIC50 of your compound is 6.12'',
        St_write ''---'', St_header ''Please contact us!'', St_columns 2, St_html ContactForm,
        St_empty]"
  by code_simp

text \<open>
  C3, amended. The potency branch discards the exit code of the external tool and surfaces
  no failure for it: a run in which the tool exits with any code behaves exactly as the run
  in which it exits with 0 and leaves the same files. So, whatever the exit code, the
  branch performs model inference and displays the value when the output file found after
  the tool has run is read, has its \<open>Name\<close> column dropped, and the regressor loads and
  predicts; and when no output file is found, the branch fails with \<open>FileNotFoundError\<close>
  from reading it, and neither loads nor applies the regressor.
\<close>

theorem C3_exit_code_ignored:
  "main (env\<lparr>subprocess_call := (\<lambda>argv fs. (code, effect argv fs))\<rparr>) w smiles_input PIC50
       run_pressed
     = main (env\<lparr>subprocess_call := (\<lambda>argv fs. (0, effect argv fs))\<rparr>) w smiles_input PIC50
         run_pressed
   \<and> (smiles_input \<noteq> [] \<and>
        effect [''bash'', ''./padel.sh'']
          (generate_csv_file smiles_input ''Compound_name'' ''molecule.smi'' (files w))
          ''descriptors_output.csv'' = None \<longrightarrow>
        main (env\<lparr>subprocess_call := (\<lambda>argv fs. (code, effect argv fs))\<rparr>) w smiles_input PIC50
            True
          = (Raised (FileNotFoundError ''descriptors_output.csv''),
             [Write_file ''molecule.smi'' (generate_csv_text smiles_input ''Compound_name''),
              Call_subprocess [''bash'', ''./padel.sh''],
              Call_read_csv ''descriptors_output.csv''],
             w\<lparr>files := effect [''bash'', ''./padel.sh'']
                 (generate_csv_file smiles_input ''Compound_name'' ''molecule.smi'' (files w))\<rparr>))
   \<and> (smiles_input \<noteq> [] \<and>
        read_csv env
          (effect [''bash'', ''./padel.sh'']
             (generate_csv_file smiles_input ''Compound_name'' ''molecule.smi'' (files w)))
          ''descriptors_output.csv'' = Inr data \<and>
        drop_column ''Name'' data = Inr X \<and>
        load_model env
          (effect [''bash'', ''./padel.sh'']
             (generate_csv_file smiles_input ''Compound_name'' ''molecule.smi'' (files w)))
          ''model.pkl'' = Inr loaded_model \<and>
        predict env loaded_model X = Inr (predicted_value # others) \<and>
        format_2f_num predicted_value = Inr formatted \<longrightarrow>
        main (env\<lparr>subprocess_call := (\<lambda>argv fs. (code, effect argv fs))\<rparr>) w smiles_input PIC50
            True
          = (Returned,
             [Write_file ''molecule.smi'' (generate_csv_text smiles_input ''Compound_name''),
              Call_subprocess [''bash'', ''./padel.sh''],
              Call_read_csv ''descriptors_output.csv'',
              Call_pickle_load ''model.pkl'',
              Call_predict X,
              St_text (''The pIC50 of your compound is '' @ formatted)]
               @ contact_section,
             w\<lparr>files := effect [''bash'', ''./padel.sh'']
                 (generate_csv_file smiles_input ''Compound_name'' ''molecule.smi'' (files w))\<rparr>))"
proof -
  let ?env = "env\<lparr>subprocess_call := (\<lambda>argv fs. (code, effect argv fs))\<rparr>"
  let ?fs2 = "effect [''bash'', ''./padel.sh'']
                 (generate_csv_file smiles_input ''Compound_name'' ''molecule.smi'' (files w))"
  have after: "snd (subprocess_call ?env [''bash'', ''./padel.sh'']
                (generate_csv_file smiles_input ''Compound_name'' ''molecule.smi'' (files w)))
      = ?fs2"
    by simp
  have same: "main ?env w smiles_input PIC50 run_pressed
     = main (env\<lparr>subprocess_call := (\<lambda>argv fs. (0, effect argv fs))\<rparr>) w smiles_input PIC50
         run_pressed"
    using pic50_exit_code [where env = env and code = code and effect = effect and w = w
        and s = smiles_input]
    by (simp add: main_def)
  have missing: "main ?env w smiles_input PIC50 True
          = (Raised (FileNotFoundError ''descriptors_output.csv''),
             [Write_file ''molecule.smi'' (generate_csv_text smiles_input ''Compound_name''),
              Call_subprocess [''bash'', ''./padel.sh''],
              Call_read_csv ''descriptors_output.csv''],
             w\<lparr>files := ?fs2\<rparr>)"
    if ne: "smiles_input \<noteq> []"
      and none: "?fs2 ''descriptors_output.csv'' = None"
  proof -
    have "read_csv ?env
             (snd (subprocess_call ?env [''bash'', ''./padel.sh'']
                (generate_csv_file smiles_input ''Compound_name'' ''molecule.smi'' (files w))))
             ''descriptors_output.csv'' = Inl (FileNotFoundError ''descriptors_output.csv'')"
      using none by (simp add: read_csv_def)
    from pic50_read_failure [OF this] ne show ?thesis
      by (simp add: main_def)
  qed
  have inferred: "main ?env w smiles_input PIC50 True
          = (Returned,
             [Write_file ''molecule.smi'' (generate_csv_text smiles_input ''Compound_name''),
              Call_subprocess [''bash'', ''./padel.sh''],
              Call_read_csv ''descriptors_output.csv'',
              Call_pickle_load ''model.pkl'',
              Call_predict X,
              St_text (''The pIC50 of your compound is '' @ formatted)]
               @ contact_section,
             w\<lparr>files := ?fs2\<rparr>)"
    if ne: "smiles_input \<noteq> []"
      and csv: "read_csv env ?fs2 ''descriptors_output.csv'' = Inr data"
      and dropped: "drop_column ''Name'' data = Inr X"
      and loaded: "load_model env ?fs2 ''model.pkl'' = Inr loaded_model"
      and predicted: "predict env loaded_model X = Inr (predicted_value # others)"
      and shown: "format_2f_num predicted_value = Inr formatted"
  proof -
    have csv': "read_csv ?env
             (snd (subprocess_call ?env [''bash'', ''./padel.sh'']
                (generate_csv_file smiles_input ''Compound_name'' ''molecule.smi'' (files w))))
             ''descriptors_output.csv'' = Inr data"
      unfolding after read_csv_subprocess_update by (rule csv)
    have loaded': "load_model ?env
             (snd (subprocess_call ?env [''bash'', ''./padel.sh'']
                (generate_csv_file smiles_input ''Compound_name'' ''molecule.smi'' (files w))))
             ''model.pkl'' = Inr loaded_model"
      unfolding after load_model_subprocess_update by (rule loaded)
    have predicted': "predict ?env loaded_model X = Inr (predicted_value # others)"
      using predicted by simp
    from pic50_success [OF csv' dropped loaded' predicted' shown] ne show ?thesis
      by (simp add: main_def)
  qed
  from same missing inferred show ?thesis by blast
qed

theorem C3_exit_code_ignored_witness:
  "main failing_script_env stale_world ''CCO'' PIC50 True
     = main (demo_env\<lparr>subprocess_call := (\<lambda>argv fs. (0, fs))\<rparr>) stale_world ''CCO'' PIC50 True
   \<and> fst (main failing_script_env demo_world ''CCO'' PIC50 True)
       = Raised (FileNotFoundError ''descriptors_output.csv'')
   \<and> fst (snd (main failing_script_env stale_world ''CCO'' PIC50 True))
       = [Write_file ''molecule.smi'' (generate_csv_text ''CCO'' ''Compound_name''),
          Call_subprocess [''bash'', ''./padel.sh''],
          Call_read_csv ''descriptors_output.csv'',
          Call_pickle_load ''model.pkl'',
          Call_predict \<lparr>columns = [''F1''], rows = [[NumCell (PyInt 3)]]\<rparr>,
          St_text ''The pIC50 of your compound is 6.12'']
           @ contact_section"
proof -
  let ?fs2 = "generate_csv_file ''CCO'' ''Compound_name'' ''molecule.smi'' (files stale_world)"
  have absent: "''CCO'' \<noteq> [] \<and>
      generate_csv_file ''CCO'' ''Compound_name'' ''molecule.smi'' (files demo_world)
        ''descriptors_output.csv'' = None"
    by (simp add: generate_csv_file_def demo_world_def)
  have stale: "main failing_script_env stale_world ''CCO'' PIC50 True
     = main (demo_env\<lparr>subprocess_call := (\<lambda>argv fs. (0, fs))\<rparr>) stale_world ''CCO'' PIC50 True"
    unfolding failing_script_env_def
    by (rule C3_exit_code_ignored [where env = demo_env and code = 1 and effect = "\<lambda>argv fs. fs"
          and w = stale_world and smiles_input = "''CCO''" and run_pressed = True,
          THEN conjunct1])
  have failed: "fst (main failing_script_env demo_world ''CCO'' PIC50 True)
       = Raised (FileNotFoundError ''descriptors_output.csv'')"
    unfolding failing_script_env_def
    using C3_exit_code_ignored [where env = demo_env and code = 1 and effect = "\<lambda>argv fs. fs"
          and w = demo_world and smiles_input = "''CCO''", THEN conjunct2, THEN conjunct1,
          rule_format, OF absent]
    by simp
  have csv: "read_csv demo_env ?fs2 ''descriptors_output.csv'' = Inr demo_frame"
    by (simp add: read_csv_def demo_env_def generate_csv_file_def stale_world_def)
  have dropped: "drop_column ''Name'' demo_frame
      = Inr \<lparr>columns = [''F1''], rows = [[NumCell (PyInt 3)]]\<rparr>"
    by (simp add: drop_column_def demo_frame_def)
  have loaded: "load_model demo_env ?fs2 ''model.pkl'' = Inr ''regressor''"
    by (simp add: load_model_def demo_env_def demo_world_def stale_world_def
        generate_csv_file_def)
  have predicted: "predict demo_env ''regressor''
      \<lparr>columns = [''F1''], rows = [[NumCell (PyInt 3)]]\<rparr>
      = Inr (PyFloat (Finite (3447195892277733 / 562949953421312)) # [])"
    by (simp add: demo_env_def)
  have "format_2f (Finite (3447195892277733 / 562949953421312)) = ''6.12''"
    by code_simp
  then have shown: "format_2f_num (PyFloat (Finite (3447195892277733 / 562949953421312)))
      = Inr ''6.12''"
    by simp
  have success: "''CCO'' \<noteq> [] \<and>
        read_csv demo_env ?fs2 ''descriptors_output.csv'' = Inr demo_frame \<and>
        drop_column ''Name'' demo_frame
          = Inr \<lparr>columns = [''F1''], rows = [[NumCell (PyInt 3)]]\<rparr> \<and>
        load_model demo_env ?fs2 ''model.pkl'' = Inr ''regressor'' \<and>
        predict demo_env ''regressor'' \<lparr>columns = [''F1''], rows = [[NumCell (PyInt 3)]]\<rparr>
          = Inr (PyFloat (Finite (3447195892277733 / 562949953421312)) # []) \<and>
        format_2f_num (PyFloat (Finite (3447195892277733 / 562949953421312))) = Inr ''6.12''"
    using csv dropped loaded predicted shown by simp
  have inferred: "fst (snd (main failing_script_env stale_world ''CCO'' PIC50 True))
       = [Write_file ''molecule.smi'' (generate_csv_text ''CCO'' ''Compound_name''),
          Call_subprocess [''bash'', ''./padel.sh''],
          Call_read_csv ''descriptors_output.csv'',
          Call_pickle_load ''model.pkl'',
          Call_predict \<lparr>columns = [''F1''], rows = [[NumCell (PyInt 3)]]\<rparr>,
          St_text ''The pIC50 of your compound is 6.12'']
           @ contact_section"
    unfolding failing_script_env_def
    using C3_exit_code_ignored [where env = demo_env and code = 1 and effect = "\<lambda>argv fs. fs"
          and w = stale_world and smiles_input = "''CCO''", THEN conjunct2, THEN conjunct2,
          rule_format, OF success]
    by simp
  from stale failed inferred show ?thesis by simp
qed

section \<open>The intermediate file\<close>

text \<open>
  C8 as stated fails: \<open>generate_csv_file\<close> writes one CSV field through \<open>csv.writer\<close>,
  which quotes a field holding a comma. For the input \<open>C,C\<close> the line starts and ends
  with a double quote, so its two tab-separated fields are not the input and the
  placeholder.
\<close>

theorem C8_counterexample:
  "generate_csv_text ''C,C'' ''Compound_name''
     = [CHR 0x22] @ ''C,C'' @ [CHR 0x09] @ ''Compound_name'' @ [CHR 0x22, CHR 0x0D, CHR 0x0A]
   \<and> tsv_rows (generate_csv_text ''C,C'' ''Compound_name'')
     = [[[CHR 0x22] @ ''C,C'', ''Compound_name'' @ [CHR 0x22]]]
   \<and> tsv_rows (generate_csv_text ''C,C'' ''Compound_name'') \<noteq> [[''C,C'', ''Compound_name'']]
   \<and> hd (fst (snd (main demo_env demo_world ''C,C'' PIC50 True)))
     = Write_file ''molecule.smi''
         ([CHR 0x22] @ ''C,C'' @ [CHR 0x09] @ ''Compound_name'' @ [CHR 0x22, CHR 0x0D, CHR 0x0A])"
  by code_simp

text \<open>
  C8, amended. For every molecular string and placeholder holding no comma, double quote,
  CR or LF, the file written before the external tool is invoked is the single line made
  of the string, a tab, the placeholder and CR LF, without a header; when neither holds a
  tab, it reads as exactly one row of the two fields. The file is written first and the
  tool is invoked second.
\<close>

theorem C8_intermediate_file:
  assumes "\<not> list_ex csv_special (string1 @ string2)"
  shows "generate_csv_text string1 string2
           = string1 @ [CHR 0x09] @ string2 @ [CHR 0x0D, CHR 0x0A]
       \<and> (CHR 0x09 \<notin> set string1 \<and> CHR 0x09 \<notin> set string2 \<longrightarrow>
            tsv_rows (generate_csv_text string1 string2) = [[string1, string2]])
       \<and> generate_csv_file string1 string2 filename fs filename
           = Some (generate_csv_text string1 string2)
       \<and> take 2 (fst (snd (pic50_branch env w string1)))
           = [Write_file ''molecule.smi'' (generate_csv_text string1 ''Compound_name''),
              Call_subprocess [''bash'', ''./padel.sh'']]"
proof -
  have written: "generate_csv_text string1 string2
           = string1 @ [CHR 0x09] @ string2 @ [CHR 0x0D, CHR 0x0A]"
    using assms by (rule generate_csv_text_plain)
  have rows: "tsv_rows (generate_csv_text string1 string2) = [[string1, string2]]"
    if tabs: "CHR 0x09 \<notin> set string1 \<and> CHR 0x09 \<notin> set string2"
  proof -
    have "CHR 0x0D \<notin> set (string1 @ [CHR 0x09] @ string2)"
      using assms by (auto simp: list_ex_iff csv_special_def)
    then have "crlf_lines [] ((string1 @ [CHR 0x09] @ string2) @ [CHR 0x0D, CHR 0x0A])
        = [[] @ (string1 @ [CHR 0x09] @ string2)]"
      by (rule crlf_lines_single)
    then have lines: "crlf_lines [] (generate_csv_text string1 string2)
        = [string1 @ CHR 0x09 # string2]"
      by (simp add: written)
    have "split_on (CHR 0x09) (string1 @ CHR 0x09 # string2) = [string1, string2]"
      using tabs by (simp add: split_on_first split_on_absent)
    with lines show ?thesis
      by (simp add: tsv_rows_def)
  qed
  have stored: "generate_csv_file string1 string2 filename fs filename
           = Some (generate_csv_text string1 string2)"
    by (simp add: generate_csv_file_def)
  have order: "take 2 (fst (snd (pic50_branch env w string1)))
           = [Write_file ''molecule.smi'' (generate_csv_text string1 ''Compound_name''),
              Call_subprocess [''bash'', ''./padel.sh'']]"
    by (simp add: pic50_branch_def Let_def split: sum.splits)
  from written rows stored order show ?thesis by blast
qed

theorem C8_intermediate_file_witness:
  "generate_csv_text ''CCO'' ''Compound_name''
     = ''CCO'' @ [CHR 0x09] @ ''Compound_name'' @ [CHR 0x0D, CHR 0x0A]
   \<and> tsv_rows (generate_csv_text ''CCO'' ''Compound_name'') = [[''CCO'', ''Compound_name'']]"
proof -
  have plain: "\<not> list_ex csv_special (''CCO'' @ ''Compound_name'')"
    by (simp add: csv_special_def)
  have tabs: "CHR 0x09 \<notin> set ''CCO'' \<and> CHR 0x09 \<notin> set ''Compound_name''"
    by simp
  show ?thesis
    using C8_intermediate_file [OF plain, THEN conjunct1]
      C8_intermediate_file [OF plain, THEN conjunct2, THEN conjunct1, rule_format, OF tabs]
    by simp
qed

section \<open>The output file of the external tool\<close>

text \<open>
  C7 as stated fails for a malformed file that the CSV reader accepts: nothing is checked
  between reading the file and using it. With a feature cell that is not a number, the
  branch loads the regressor and applies it to the frame; the failure shown is the one
  the regressor raises.
\<close>

theorem C7_counterexample:
  "snd (subprocess_call text_cell_env [''bash'', ''./padel.sh''] Map.empty)
       ''descriptors_output.csv''
     = Some (''Name,F1'' @ [CHR 0x0A] @ ''Compound_name,abc'' @ [CHR 0x0A])
   \<and> read_csv_text text_cell_env
       (''Name,F1'' @ [CHR 0x0A] @ ''Compound_name,abc'' @ [CHR 0x0A])
     = Inr \<lparr>columns = [''Name'', ''F1''],
            rows = [[StrCell ''Compound_name'', StrCell ''abc'']]\<rparr>
   \<and> fst (snd (main text_cell_env demo_world ''CCO'' PIC50 True)) =
       [Write_file ''molecule.smi'' (''CCO'' @ [CHR 0x09] @ ''Compound_name'' @ [CHR 0x0D, CHR 0x0A]),
        Call_subprocess [''bash'', ''./padel.sh''],
        Call_read_csv ''descriptors_output.csv'',
        Call_pickle_load ''model.pkl'',
        Call_predict \<lparr>columns = [''F1''], rows = [[StrCell ''abc'']]\<rparr>,
        St_error ''could not convert string to float'',
        St_write ''---'', St_header ''Please contact us!'', St_columns 2, St_html ContactForm,
        St_empty]"
  by code_simp

text \<open>
  C7, amended. In the potency branch, when the frame read from \<open>descriptors_output.csv\<close>
  has no \<open>Name\<close> column, the branch fails in \<open>drop\<close> with \<open>KeyError\<close>, which leaves
  \<open>main\<close>; when the CSV reader raises (the file is missing or the reader cannot read
  it), the branch fails with that exception. In both cases the events of the run stop at
  the reading of the file: the regressor is neither loaded nor applied and no value is
  displayed. A frame that the reader returns and that has a \<open>Name\<close> column is not
  checked any further: the regressor file is loaded and, when it loads, the regressor is
  applied to the frame without that column.
\<close>

theorem C7_output_file_failure:
  assumes "smiles_input \<noteq> []"
    and "fs2 = snd (subprocess_call env [''bash'', ''./padel.sh'']
                 (generate_csv_file smiles_input ''Compound_name'' ''molecule.smi'' (files w)))"
    and "evs2 = [Write_file ''molecule.smi'' (generate_csv_text smiles_input ''Compound_name''),
                 Call_subprocess [''bash'', ''./padel.sh''],
                 Call_read_csv ''descriptors_output.csv'']"
  shows "(read_csv env fs2 ''descriptors_output.csv'' = Inr data \<and> ''Name'' \<notin> set (columns data)
            \<longrightarrow> try_body env w smiles_input PIC50
                  = (Inl (KeyError ''Name''), evs2, w\<lparr>files := fs2\<rparr>)
              \<and> main env w smiles_input PIC50 True
                  = (Raised (KeyError ''Name''), evs2, w\<lparr>files := fs2\<rparr>))
       \<and> (read_csv env fs2 ''descriptors_output.csv'' = Inl e
            \<longrightarrow> try_body env w smiles_input PIC50 = (Inl e, evs2, w\<lparr>files := fs2\<rparr>)
              \<and> filter (\<lambda>ev. \<not> is_display ev) (fst (snd (main env w smiles_input PIC50 True)))
                  = evs2
              \<and> (\<forall>t. St_text t \<notin> set (fst (snd (main env w smiles_input PIC50 True)))))
       \<and> (read_csv env fs2 ''descriptors_output.csv'' = Inr data \<and> ''Name'' \<in> set (columns data)
            \<longrightarrow> (\<exists>X. drop_column ''Name'' data = Inr X
                  \<and> take 4 (fst (snd (main env w smiles_input PIC50 True)))
                      = evs2 @ [Call_pickle_load ''model.pkl'']
                  \<and> (load_model env fs2 ''model.pkl'' = Inr loaded_model \<longrightarrow>
                        take 5 (fst (snd (main env w smiles_input PIC50 True)))
                          = evs2 @ [Call_pickle_load ''model.pkl'', Call_predict X])))"
proof -
  have nameless: "try_body env w smiles_input PIC50
                  = (Inl (KeyError ''Name''), evs2, w\<lparr>files := fs2\<rparr>)
              \<and> main env w smiles_input PIC50 True
                  = (Raised (KeyError ''Name''), evs2, w\<lparr>files := fs2\<rparr>)"
    if "read_csv env fs2 ''descriptors_output.csv'' = Inr data"
      and "''Name'' \<notin> set (columns data)"
  proof -
    from that(2) have "drop_column ''Name'' data = Inl (KeyError ''Name'')"
      by (simp add: drop_column_def)
    with that(1) have "pic50_branch env w smiles_input
        = (Inl (KeyError ''Name''), evs2, w\<lparr>files := fs2\<rparr>)"
      unfolding assms(2) assms(3) by (rule pic50_drop_failure)
    with assms(1) show ?thesis
      by (simp add: main_def)
  qed
  have unread: "try_body env w smiles_input PIC50 = (Inl e, evs2, w\<lparr>files := fs2\<rparr>)
              \<and> filter (\<lambda>ev. \<not> is_display ev) (fst (snd (main env w smiles_input PIC50 True)))
                  = evs2
              \<and> (\<forall>t. St_text t \<notin> set (fst (snd (main env w smiles_input PIC50 True))))"
    if "read_csv env fs2 ''descriptors_output.csv'' = Inl e"
  proof -
    from that have run: "pic50_branch env w smiles_input = (Inl e, evs2, w\<lparr>files := fs2\<rparr>)"
      unfolding assms(2) assms(3) by (rule pic50_read_failure)
    have quiet: "filter (\<lambda>ev. \<not> is_display ev) evs2 = evs2" "\<forall>t. St_text t \<notin> set evs2"
      by (simp_all add: assms(3))
    from run assms(1) quiet show ?thesis
      by (cases e) (simp_all add: main_def contact_section_def)
  qed
  have passed_on: "\<exists>X. drop_column ''Name'' data = Inr X
                  \<and> take 4 (fst (snd (main env w smiles_input PIC50 True)))
                      = evs2 @ [Call_pickle_load ''model.pkl'']
                  \<and> (load_model env fs2 ''model.pkl'' = Inr loaded_model \<longrightarrow>
                        take 5 (fst (snd (main env w smiles_input PIC50 True)))
                          = evs2 @ [Call_pickle_load ''model.pkl'', Call_predict X])"
    if csv: "read_csv env fs2 ''descriptors_output.csv'' = Inr data"
      and name: "''Name'' \<in> set (columns data)"
  proof -
    from name obtain X where dropped: "drop_column ''Name'' data = Inr X"
      by (simp add: drop_column_def)
    obtain rest where whole: "fst (snd (main env w smiles_input PIC50 True))
        = fst (snd (pic50_branch env w smiles_input)) @ rest"
      using main_trace_extends [OF assms(1), of env w PIC50] by auto
    have four: "take 4 (fst (snd (pic50_branch env w smiles_input)))
        = evs2 @ [Call_pickle_load ''model.pkl'']"
      and five: "load_model env fs2 ''model.pkl'' = Inr loaded_model \<Longrightarrow>
          take 5 (fst (snd (pic50_branch env w smiles_input)))
            = evs2 @ [Call_pickle_load ''model.pkl'', Call_predict X]"
    proof -
      show "take 4 (fst (snd (pic50_branch env w smiles_input)))
          = evs2 @ [Call_pickle_load ''model.pkl'']"
      proof (cases "load_model env fs2 ''model.pkl''")
        case (Inl e')
        from pic50_load_failure [OF csv [unfolded assms(2)] dropped Inl [unfolded assms(2)]]
        show ?thesis by (simp add: assms(3))
      next
        case (Inr m)
        from pic50_inference [OF csv [unfolded assms(2)] dropped Inr [unfolded assms(2)]]
        have "take 4 (take 5 (fst (snd (pic50_branch env w smiles_input))))
            = evs2 @ [Call_pickle_load ''model.pkl'']"
          by (simp add: assms(3))
        then show ?thesis by simp
      qed
      show "take 5 (fst (snd (pic50_branch env w smiles_input)))
            = evs2 @ [Call_pickle_load ''model.pkl'', Call_predict X]"
        if "load_model env fs2 ''model.pkl'' = Inr loaded_model"
        using pic50_inference [OF csv [unfolded assms(2)] dropped that [unfolded assms(2)]]
        by (simp add: assms(3))
    qed
    from four have "length (take 4 (fst (snd (pic50_branch env w smiles_input)))) = 4"
      by (simp add: assms(3))
    then have len4: "4 \<le> length (fst (snd (pic50_branch env w smiles_input)))"
      by simp
    have take4: "take 4 (fst (snd (main env w smiles_input PIC50 True)))
        = evs2 @ [Call_pickle_load ''model.pkl'']"
      using four len4 by (simp add: whole)
    have take5: "take 5 (fst (snd (main env w smiles_input PIC50 True)))
        = evs2 @ [Call_pickle_load ''model.pkl'', Call_predict X]"
      if loaded: "load_model env fs2 ''model.pkl'' = Inr loaded_model"
    proof -
      from five [OF loaded] have "length (take 5 (fst (snd (pic50_branch env w smiles_input)))) = 5"
        by (simp add: assms(3))
      then have "5 \<le> length (fst (snd (pic50_branch env w smiles_input)))"
        by simp
      with five [OF loaded] show ?thesis by (simp add: whole)
    qed
    from dropped take4 take5 show ?thesis by blast
  qed
  from nameless unread passed_on show ?thesis by blast
qed

theorem C7_output_file_failure_witness:
  "main nameless_env demo_world ''CCO'' PIC50 True =
     (Raised (KeyError ''Name''),
      [Write_file ''molecule.smi'' (generate_csv_text ''CCO'' ''Compound_name''),
       Call_subprocess [''bash'', ''./padel.sh''],
       Call_read_csv ''descriptors_output.csv''],
      demo_world\<lparr>files := snd (subprocess_call nameless_env [''bash'', ''./padel.sh'']
         (generate_csv_file ''CCO'' ''Compound_name'' ''molecule.smi'' (files demo_world)))\<rparr>)
   \<and> filter (\<lambda>ev. \<not> is_display ev)
        (fst (snd (main failing_script_env demo_world ''CCO'' PIC50 True)))
      = [Write_file ''molecule.smi'' (generate_csv_text ''CCO'' ''Compound_name''),
         Call_subprocess [''bash'', ''./padel.sh''],
         Call_read_csv ''descriptors_output.csv'']
   \<and> take 4 (fst (snd (main text_cell_env demo_world ''CCO'' PIC50 True)))
      = [Write_file ''molecule.smi'' (generate_csv_text ''CCO'' ''Compound_name''),
         Call_subprocess [''bash'', ''./padel.sh''],
         Call_read_csv ''descriptors_output.csv'',
         Call_pickle_load ''model.pkl'']"
proof -
  have ne: "''CCO'' \<noteq> []" by simp
  have nameless: "read_csv nameless_env
      (snd (subprocess_call nameless_env [''bash'', ''./padel.sh'']
         (generate_csv_file ''CCO'' ''Compound_name'' ''molecule.smi'' (files demo_world))))
      ''descriptors_output.csv'' = Inr \<lparr>columns = [''F1''], rows = [[NumCell (PyInt 3)]]\<rparr>
    \<and> ''Name'' \<notin> set (columns \<lparr>columns = [''F1''], rows = [[NumCell (PyInt 3)]]\<rparr>)"
    by (simp add: read_csv_def nameless_env_def demo_env_def nameless_frame_def nameless_csv_def
        demo_csv_def text_cell_csv_def)
  have missing: "read_csv failing_script_env
      (snd (subprocess_call failing_script_env [''bash'', ''./padel.sh'']
         (generate_csv_file ''CCO'' ''Compound_name'' ''molecule.smi'' (files demo_world))))
      ''descriptors_output.csv'' = Inl (FileNotFoundError ''descriptors_output.csv'')"
    by (simp add: read_csv_def failing_script_env_def generate_csv_file_def demo_world_def)
  have accepted: "read_csv text_cell_env
      (snd (subprocess_call text_cell_env [''bash'', ''./padel.sh'']
         (generate_csv_file ''CCO'' ''Compound_name'' ''molecule.smi'' (files demo_world))))
      ''descriptors_output.csv''
        = Inr \<lparr>columns = [''Name'', ''F1''],
               rows = [[StrCell ''Compound_name'', StrCell ''abc'']]\<rparr>
    \<and> ''Name'' \<in> set (columns \<lparr>columns = [''Name'', ''F1''],
                                  rows = [[StrCell ''Compound_name'', StrCell ''abc'']]\<rparr>)"
    by (simp add: read_csv_def text_cell_env_def demo_env_def text_cell_frame_def
        demo_csv_def text_cell_csv_def)
  have first: "main nameless_env demo_world ''CCO'' PIC50 True =
     (Raised (KeyError ''Name''),
      [Write_file ''molecule.smi'' (generate_csv_text ''CCO'' ''Compound_name''),
       Call_subprocess [''bash'', ''./padel.sh''],
       Call_read_csv ''descriptors_output.csv''],
      demo_world\<lparr>files := snd (subprocess_call nameless_env [''bash'', ''./padel.sh'']
         (generate_csv_file ''CCO'' ''Compound_name'' ''molecule.smi'' (files demo_world)))\<rparr>)"
    using C7_output_file_failure [OF ne refl refl, THEN conjunct1, rule_format, OF nameless]
    by simp
  have second: "filter (\<lambda>ev. \<not> is_display ev)
        (fst (snd (main failing_script_env demo_world ''CCO'' PIC50 True)))
      = [Write_file ''molecule.smi'' (generate_csv_text ''CCO'' ''Compound_name''),
         Call_subprocess [''bash'', ''./padel.sh''],
         Call_read_csv ''descriptors_output.csv'']"
    using C7_output_file_failure [OF ne refl refl, THEN conjunct2, THEN conjunct1, rule_format,
        OF missing]
    by simp
  have third: "take 4 (fst (snd (main text_cell_env demo_world ''CCO'' PIC50 True)))
      = [Write_file ''molecule.smi'' (generate_csv_text ''CCO'' ''Compound_name''),
         Call_subprocess [''bash'', ''./padel.sh''],
         Call_read_csv ''descriptors_output.csv'',
         Call_pickle_load ''model.pkl'']"
    using C7_output_file_failure [OF ne refl refl, THEN conjunct2, THEN conjunct2, rule_format,
        OF accepted]
    by auto
  from first second third show ?thesis by simp
qed

section \<open>The displayed potency\<close>

text \<open>
  C4 as stated fails for a prediction that is not a finite number: \<open>format(x, ".2f")\<close>
  renders NaN as \<open>nan\<close>, which has no decimal places.
\<close>

theorem C4_counterexample:
  "fst (snd (main nan_env demo_world ''CCO'' PIC50 True)) =
     [Write_file ''molecule.smi'' (''CCO'' @ [CHR 0x09] @ ''Compound_name'' @ [CHR 0x0D, CHR 0x0A]),
      Call_subprocess [''bash'', ''./padel.sh''],
      Call_read_csv ''descriptors_output.csv'',
      Call_pickle_load ''model.pkl'',
      Call_predict \<lparr>columns = [''F1''], rows = [[NumCell (PyInt 3)]]\<rparr>,
      St_text ''The pIC50 of your compound is nan'',
      St_write ''---'', St_header ''Please contact us!'', St_columns 2, St_html ContactForm,
      St_empty]
   \<and> fraction_digits ''nan'' = []"
  by code_simp

text \<open>
  C4, amended. The branch applies the regressor to the features as read from the file and
  only then formats the first float it returns. For every finite prediction, the negative
  zero included, the displayed numeral has exactly two digits after the point and denotes
  a whole number of hundredths within half a hundredth of the raw prediction (the double
  nearest to 6.12345 is displayed as 6.12). A prediction that is NaN or infinite is
  displayed as \<open>nan\<close>, \<open>inf\<close> or \<open>-inf\<close>.
\<close>

theorem C4_two_decimals:
  assumes "smiles_input \<noteq> []"
    and "fs2 = snd (subprocess_call env [''bash'', ''./padel.sh'']
                 (generate_csv_file smiles_input ''Compound_name'' ''molecule.smi'' (files w)))"
    and "read_csv env fs2 ''descriptors_output.csv'' = Inr data"
    and "drop_column ''Name'' data = Inr X"
    and "load_model env fs2 ''model.pkl'' = Inr loaded_model"
    and "predict env loaded_model X = Inr (PyFloat x # others)"
  shows "fst (snd (main env w smiles_input PIC50 True)) =
           [Write_file ''molecule.smi'' (generate_csv_text smiles_input ''Compound_name''),
            Call_subprocess [''bash'', ''./padel.sh''],
            Call_read_csv ''descriptors_output.csv'',
            Call_pickle_load ''model.pkl'',
            Call_predict X,
            St_text (''The pIC50 of your compound is '' @ format_2f x)]
             @ contact_section
       \<and> (finite_value x = Some q \<longrightarrow>
            length (fraction_digits (format_2f x)) = 2
          \<and> \<bar>read_fixed (format_2f x) - q\<bar> \<le> 1 / 200
          \<and> (\<exists>n::int. read_fixed (format_2f x) = of_int n / 100))
       \<and> (finite_value x = None \<longrightarrow>
            (x = NaN \<and> format_2f x = ''nan'') \<or> (x = PosInf \<and> format_2f x = ''inf'')
          \<or> (x = NegInf \<and> format_2f x = ''-inf''))"
proof -
  have "format_2f_num (PyFloat x) = Inr (format_2f x)"
    by simp
  with assms(3-6) have "pic50_branch env w smiles_input =
           (Inr (),
            [Write_file ''molecule.smi'' (generate_csv_text smiles_input ''Compound_name''),
             Call_subprocess [''bash'', ''./padel.sh''],
             Call_read_csv ''descriptors_output.csv'',
             Call_pickle_load ''model.pkl'',
             Call_predict X,
             St_text (''The pIC50 of your compound is '' @ format_2f x)],
            w\<lparr>files := snd (subprocess_call env [''bash'', ''./padel.sh'']
                (generate_csv_file smiles_input ''Compound_name'' ''molecule.smi''
                   (files w)))\<rparr>)"
    unfolding assms(2) by (rule pic50_success)
  with assms(1) have shown: "fst (snd (main env w smiles_input PIC50 True)) =
           [Write_file ''molecule.smi'' (generate_csv_text smiles_input ''Compound_name''),
            Call_subprocess [''bash'', ''./padel.sh''],
            Call_read_csv ''descriptors_output.csv'',
            Call_pickle_load ''model.pkl'',
            Call_predict X,
            St_text (''The pIC50 of your compound is '' @ format_2f x)]
             @ contact_section"
    by (simp add: main_def)
  have finite: "length (fraction_digits (format_2f x)) = 2
          \<and> \<bar>read_fixed (format_2f x) - q\<bar> \<le> 1 / 200
          \<and> (\<exists>n::int. read_fixed (format_2f x) = of_int n / 100)"
    if denotes: "finite_value x = Some q"
  proof (cases x)
    case (Finite r)
    with denotes have r: "r = q" by simp
    have hundredth: "\<exists>n::int. read_fixed (format_2f (Finite q)) = of_int n / 100"
    proof (cases "q < 0")
      case True
      then have "read_fixed (format_2f (Finite q))
          = of_int (- round_half_even (\<bar>q\<bar> * 100)) / 100"
        unfolding read_fixed_format_2f by simp
      then show ?thesis ..
    next
      case False
      then have "read_fixed (format_2f (Finite q))
          = of_int (round_half_even (\<bar>q\<bar> * 100)) / 100"
        unfolding read_fixed_format_2f by simp
      then show ?thesis ..
    qed
    from fraction_digits_format_2f [of q] read_fixed_near [of q] hundredth
    show ?thesis unfolding Finite r by blast
  next
    case NegZero
    with denotes have q: "q = 0" by simp
    have digits: "length (fraction_digits ''-0.00'') = 2"
      by (simp add: fraction_digits_def)
    have zero: "read_fixed ''-0.00'' = 0"
      by code_simp
    then have "read_fixed ''-0.00'' = of_int 0 / 100"
      by simp
    then have "\<exists>n::int. read_fixed ''-0.00'' = of_int n / 100" ..
    with digits zero show ?thesis
      unfolding NegZero q by simp
  next
    case PosInf
    with denotes show ?thesis by simp
  next
    case NegInf
    with denotes show ?thesis by simp
  next
    case NaN
    with denotes show ?thesis by simp
  qed
  have special: "(x = NaN \<and> format_2f x = ''nan'') \<or> (x = PosInf \<and> format_2f x = ''inf'')
          \<or> (x = NegInf \<and> format_2f x = ''-inf'')"
    if "finite_value x = None"
    using that by (cases x) simp_all
  from shown finite special show ?thesis by blast
qed

theorem C4_two_decimals_witness:
  "fst (snd (main demo_env demo_world ''CCO'' PIC50 True)) =
     [Write_file ''molecule.smi'' (generate_csv_text ''CCO'' ''Compound_name''),
      Call_subprocess [''bash'', ''./padel.sh''],
      Call_read_csv ''descriptors_output.csv'',
      Call_pickle_load ''model.pkl'',
      Call_predict \<lparr>columns = [''F1''], rows = [[NumCell (PyInt 3)]]\<rparr>,
      St_text ''The pIC50 of your compound is 6.12'']
       @ contact_section
   \<and> \<bar>read_fixed ''6.12'' - 3447195892277733 / 562949953421312\<bar> \<le> 1 / 200
   \<and> fst (snd (main negzero_env demo_world ''CCO'' PIC50 True)) =
     [Write_file ''molecule.smi'' (generate_csv_text ''CCO'' ''Compound_name''),
      Call_subprocess [''bash'', ''./padel.sh''],
      Call_read_csv ''descriptors_output.csv'',
      Call_pickle_load ''model.pkl'',
      Call_predict \<lparr>columns = [''F1''], rows = [[NumCell (PyInt 3)]]\<rparr>,
      St_text ''The pIC50 of your compound is -0.00'']
       @ contact_section
   \<and> \<bar>read_fixed ''-0.00'' - 0\<bar> \<le> 1 / 200"
proof -
  let ?fs2 = "snd (subprocess_call demo_env [''bash'', ''./padel.sh'']
                 (generate_csv_file ''CCO'' ''Compound_name'' ''molecule.smi''
                    (files demo_world)))"
  let ?fs2z = "snd (subprocess_call negzero_env [''bash'', ''./padel.sh'']
                 (generate_csv_file ''CCO'' ''Compound_name'' ''molecule.smi''
                    (files demo_world)))"
  have ne: "''CCO'' \<noteq> []" by simp
  have csv: "read_csv demo_env ?fs2 ''descriptors_output.csv'' = Inr demo_frame"
    by (simp add: read_csv_def demo_env_def)
  have csvz: "read_csv negzero_env ?fs2z ''descriptors_output.csv'' = Inr demo_frame"
    by (simp add: read_csv_def negzero_env_def demo_env_def)
  have dropped: "drop_column ''Name'' demo_frame
      = Inr \<lparr>columns = [''F1''], rows = [[NumCell (PyInt 3)]]\<rparr>"
    by (simp add: drop_column_def demo_frame_def)
  have loaded: "load_model demo_env ?fs2 ''model.pkl'' = Inr ''regressor''"
    by (simp add: load_model_def demo_env_def demo_world_def generate_csv_file_def)
  have loadedz: "load_model negzero_env ?fs2z ''model.pkl'' = Inr ''regressor''"
    by (simp add: load_model_def negzero_env_def demo_env_def demo_world_def
        generate_csv_file_def)
  have predicted: "predict demo_env ''regressor''
      \<lparr>columns = [''F1''], rows = [[NumCell (PyInt 3)]]\<rparr>
      = Inr (PyFloat (Finite (3447195892277733 / 562949953421312)) # [])"
    by (simp add: demo_env_def)
  have predictedz: "predict negzero_env ''regressor''
      \<lparr>columns = [''F1''], rows = [[NumCell (PyInt 3)]]\<rparr> = Inr (PyFloat NegZero # [])"
    by (simp add: negzero_env_def)
  have shown: "format_2f (Finite (3447195892277733 / 562949953421312)) = ''6.12''"
    by code_simp
  have denotes: "finite_value (Finite (3447195892277733 / 562949953421312))
      = Some (3447195892277733 / 562949953421312)"
    "finite_value NegZero = Some 0"
    by simp_all
  note plain = C4_two_decimals [OF ne refl csv dropped loaded predicted]
  note zero = C4_two_decimals [OF ne refl csvz dropped loadedz predictedz]
  from plain [THEN conjunct1] shown
  have first: "fst (snd (main demo_env demo_world ''CCO'' PIC50 True)) =
     [Write_file ''molecule.smi'' (generate_csv_text ''CCO'' ''Compound_name''),
      Call_subprocess [''bash'', ''./padel.sh''],
      Call_read_csv ''descriptors_output.csv'',
      Call_pickle_load ''model.pkl'',
      Call_predict \<lparr>columns = [''F1''], rows = [[NumCell (PyInt 3)]]\<rparr>,
      St_text ''The pIC50 of your compound is 6.12'']
       @ contact_section"
    by (simp del: format_2f.simps)
  from plain [THEN conjunct2, THEN conjunct1, rule_format, OF denotes(1)] shown
  have second: "\<bar>read_fixed ''6.12'' - 3447195892277733 / 562949953421312\<bar> \<le> 1 / 200"
    by (simp del: format_2f.simps read_fixed.simps)
  from zero [THEN conjunct1]
  have third: "fst (snd (main negzero_env demo_world ''CCO'' PIC50 True)) =
     [Write_file ''molecule.smi'' (generate_csv_text ''CCO'' ''Compound_name''),
      Call_subprocess [''bash'', ''./padel.sh''],
      Call_read_csv ''descriptors_output.csv'',
      Call_pickle_load ''model.pkl'',
      Call_predict \<lparr>columns = [''F1''], rows = [[NumCell (PyInt 3)]]\<rparr>,
      St_text ''The pIC50 of your compound is -0.00'']
       @ contact_section"
    by simp
  from zero [THEN conjunct2, THEN conjunct1, rule_format, OF denotes(2)]
  have fourth: "\<bar>read_fixed ''-0.00'' - 0\<bar> \<le> 1 / 200"
    by (simp del: read_fixed.simps)
  from first second third fourth show ?thesis by blast
qed

end
